theory Spec2Isabelle
  imports Main "HOL-Library.AList"
begin

section \<open>Job payloads: JSON values\<close>

text \<open>
  The migration code of \<^verbatim>\<open>redis-queue.ts\<close> reads the payload of a job as untyped JSON
  ("Cast as we are not sure about the schema"), so payloads are JSON values. A JSON
  number is an integer here: the only numbers the code compares are the schema versions
  1, 2, 3 and 4. The JavaScript value \<open>undefined\<close> is \<open>None\<close> of \<open>json option\<close>; a
  property whose value is \<open>undefined\<close> does not survive \<open>JSON.stringify\<close>, and reads the
  same as a missing property, so an object never stores one.
\<close>

datatype json =
    JNull
  | JBool bool
  | JNum int
  | JStr string
  | JArr "json list"
  | JObj "(string \<times> json) list"

datatype ErrorCode = JOB_REMOVAL_FAILURE | QUOTA_EXCEEDED | AUTHORIZATION

datatype error =
    TypeError
  | SyntaxError
  | LockAcquisitionError string
  | ActivepiecesError ErrorCode "(string \<times> string) list"

text \<open>\<open>isNil\<close> of \<^verbatim>\<open>@activepieces/shared\<close>: the value is \<open>null\<close> or \<open>undefined\<close>.\<close>

fun isNil :: "json option \<Rightarrow> bool" where
  "isNil None = True"
| "isNil (Some JNull) = True"
| "isNil (Some v) = False"

text \<open>
  \<open>property v k\<close> is the property read \<open>v.k\<close> on a value that is neither \<open>null\<close> nor
  \<open>undefined\<close>. The keys this code reads (\<open>schemaVersion\<close>, \<open>flowVersion\<close>,
  \<open>projectId\<close>, \<open>triggerType\<close>, \<open>id\<close>, \<open>flowId\<close>, \<open>flowVersionId\<close>, \<open>executionType\<close>)
  are \<open>undefined\<close> on arrays, strings, numbers and booleans.
\<close>

fun property :: "json \<Rightarrow> string \<Rightarrow> json option" where
  "property (JObj kvs) k = map_of kvs k"
| "property v k = None"

text \<open>\<open>member v k\<close> is \<open>v.k\<close> on any value: reading a property of \<open>null\<close> or
  \<open>undefined\<close> raises a \<open>TypeError\<close>.\<close>

fun member :: "json option \<Rightarrow> string \<Rightarrow> error + json option" where
  "member None k = Inl TypeError"
| "member (Some JNull) k = Inl TypeError"
| "member (Some v) k = Inr (property v k)"

text \<open>An object literal \<open>{k1: v1, ...}\<close> as it is stored: properties whose value is
  \<open>undefined\<close> are dropped.\<close>

definition object :: "(string \<times> json option) list \<Rightarrow> json" where
  "object fields = JObj (List.map_filter (\<lambda>(k, v). map_option (Pair k) v) fields)"

text \<open>The assignment \<open>v.k = x\<close> on an object; assigning \<open>undefined\<close> clears the
  property. The code assigns only to values it has just read a schema version from,
  which are objects.\<close>

fun assign :: "json \<Rightarrow> string \<Rightarrow> json option \<Rightarrow> json" where
  "assign (JObj kvs) k (Some x) = JObj (AList.update k x kvs)"
| "assign (JObj kvs) k None = JObj (AList.delete k kvs)"
| "assign v k x = v"

text \<open>\<open>JSON.parse(JSON.stringify(v))\<close>: a deep copy of a JSON value, which is the value
  itself; \<open>JSON.stringify(undefined)\<close> is \<open>undefined\<close>, which \<open>JSON.parse\<close> rejects.\<close>

fun json_copy :: "json option \<Rightarrow> error + json" where
  "json_copy None = Inl SyntaxError"
| "json_copy (Some v) = Inr v"

subsection \<open>Enumeration members\<close>

text \<open>Modelled from the spec: the enumerations \<open>ExecutionType\<close>, \<open>RunEnvironment\<close>,
  \<open>RepeatableJobType\<close> and \<open>ScheduleType\<close> and the constant
  \<open>LATEST_JOB_DATA_SCHEMA_VERSION\<close> are imported by \<^verbatim>\<open>redis-queue.ts\<close> from modules that
  are not part of the sources at hand. The spec names the members \<open>BEGIN\<close>, \<open>RESUME\<close>,
  \<open>EXECUTE_TRIGGER\<close>, \<open>DELAYED_FLOW\<close> and gives 4 as the latest schema version; each member
  is the string of its name.\<close>

definition LATEST_JOB_DATA_SCHEMA_VERSION :: int where
  "LATEST_JOB_DATA_SCHEMA_VERSION = 4"

definition ExecutionType_BEGIN :: json where
  "ExecutionType_BEGIN = JStr ''BEGIN''"

definition ExecutionType_RESUME :: json where
  "ExecutionType_RESUME = JStr ''RESUME''"

definition RunEnvironment_PRODUCTION :: json where
  "RunEnvironment_PRODUCTION = JStr ''PRODUCTION''"

definition RepeatableJobType_EXECUTE_TRIGGER :: json where
  "RepeatableJobType_EXECUTE_TRIGGER = JStr ''EXECUTE_TRIGGER''"

definition RepeatableJobType_DELAYED_FLOW :: json where
  "RepeatableJobType_DELAYED_FLOW = JStr ''DELAYED_FLOW''"

definition ScheduleType_CRON_EXPRESSION :: string where
  "ScheduleType_CRON_EXPRESSION = ''CRON_EXPRESSION''"

section \<open>The broker, the side mapping, the flow table and the lock service\<close>

text \<open>
  A job of the scheduled queue, as the code reads it: its payload \<open>job.data\<close>, the
  repeat options \<open>job.opts.repeat\<close> and the broker's \<open>repeatJobKey\<close>. An absent value of
  a typed field (\<open>undefined\<close> or \<open>null\<close>) is \<open>None\<close>.
\<close>

record repeatOptions =
  tz :: "string option"
  pattern :: "string option"

record job =
  data :: "json option"
  repeat :: "repeatOptions option"
  repeatJobKey :: "string option"

record flowSchedule =
  schedule_type :: string
  timezone :: string
  cronExpression :: string

record flow =
  flow_id :: string
  publishedVersionId :: "string option"
  schedule :: "flowSchedule option"

datatype log_entry =
    MigratedJobs nat
  | HandledException string

text \<open>
  The state the queue manager works on. \<open>scheduledJobQueue\<close> is what
  \<open>scheduledJobQueue.getJobs()\<close> returns (\<open>MaybeJob[]\<close>: an entry may be \<open>undefined\<close>); a
  job is identified by its position, and each stored job is listed once.
  \<open>repeatableKeys\<close> is the broker's set of active repeat schedules, \<open>redis\<close> the
  key-value store behind \<open>client.get\<close>, \<open>client.set\<close> and \<open>client.del\<close>, \<open>flowRepo\<close>
  the flow table, \<open>locks\<close> the keys held in the lock service. Of the log output, the two
  entries the properties below speak of are kept: the count reported by
  \<open>migrateScheduledJobs\<close> and the errors handed to \<open>exceptionHandler.handle\<close>.
  Calls to the broker, the key-value store and the flow table are taken to return.
\<close>

record state =
  scheduledJobQueue :: "job option list"
  repeatableKeys :: "string set"
  redis :: "string \<rightharpoonup> string"
  flowRepo :: "flow list"
  locks :: "string set"
  log :: "log_entry list"

definition repeatingJobKey :: "string \<Rightarrow> string" where
  "repeatingJobKey ident = ''activepieces:repeatJobKey:'' @ ident"

text \<open>Modelled from the spec: \<open>acquireLock\<close> of \<^verbatim>\<open>helper/lock\<close> is not part of the
  sources at hand. The spec gives the lock service as \<open>acquire(key, timeoutMs) \<rightarrow> handle\<close>
  and \<open>release(handle)\<close>, mutually exclusive by key and bounded by the timeout: when the
  key is held by someone else for the whole timeout the acquisition fails, and a
  function of type \<open>Promise<ApLock>\<close> reports that by rejecting.\<close>

definition acquireLock :: "string \<Rightarrow> state \<Rightarrow> (error + string) \<times> state" where
  "acquireLock key s =
     (if key \<in> locks s then (Inl (LockAcquisitionError key), s)
      else (Inr key, s\<lparr>locks := insert key (locks s)\<rparr>))"

text \<open>Modelled from the spec: \<open>release(handle)\<close> of the lock service, the
  \<open>migrationLock.release()\<close> of the source; the key is free again.\<close>

definition release :: "string \<Rightarrow> state \<Rightarrow> state" where
  "release lock s = s\<lparr>locks := locks s - {lock}\<rparr>"

text \<open>\<open>job.updateData(d)\<close> of the job object \<open>j\<close> read from position \<open>i\<close>: the
  broker stores \<open>d\<close> as the payload of that job, whose other fields stay as they were
  read, and the job object in memory holds \<open>d\<close> as \<open>job.data\<close>.\<close>

definition updateData :: "nat \<Rightarrow> job \<Rightarrow> json \<Rightarrow> state \<Rightarrow> job \<times> state" where
  "updateData i j d s =
     (j\<lparr>data := Some d\<rparr>,
      s\<lparr>scheduledJobQueue := (scheduledJobQueue s)[i := Some (j\<lparr>data := Some d\<rparr>)]\<rparr>)"

text \<open>Modelled from the spec: \<open>flowRepo\<close> of \<^verbatim>\<open>flows/flow/flow.repo\<close> is not part of
  the sources at hand. The spec gives it as a keyed lookup by published-version id and
  an update of the schedule record: \<open>findOneBy\<close> returns the first flow whose published
  version is the given id (a key that is not a string is the id of no flow).\<close>

definition findOneBy :: "flow list \<Rightarrow> json option \<Rightarrow> flow option" where
  "findOneBy flows key =
     (case key of
        Some (JStr v) \<Rightarrow> find (\<lambda>f. publishedVersionId f = Some v) flows
      | _ \<Rightarrow> None)"

text \<open>Modelled from the spec: \<open>flowRepo().update(flow.id, {schedule})\<close>, the update of
  the schedule record of the flow with the given id.\<close>

definition update_schedule :: "string \<Rightarrow> flowSchedule \<Rightarrow> flow list \<Rightarrow> flow list" where
  "update_schedule fid sch flows =
     map (\<lambda>f. if flow_id f = fid then f\<lparr>schedule := Some sch\<rparr> else f) flows"

section \<open>The schema migration\<close>

text \<open>\<open>updateCronExpressionOfRedisToPostgresTable(job)\<close>.\<close>

definition updateCronExpressionOfRedisToPostgresTable ::
  "job \<Rightarrow> state \<Rightarrow> (error + bool) \<times> state" where
  "updateCronExpressionOfRedisToPostgresTable j s =
     (let tz' = (case repeat j of None \<Rightarrow> None | Some r \<Rightarrow> tz r);
          pattern' = (case repeat j of None \<Rightarrow> None | Some r \<Rightarrow> pattern r)
      in case (tz', pattern') of
           (Some t, Some p) \<Rightarrow>
             (case member (data j) ''flowVersionId'' of
                Inl e \<Rightarrow> (Inl e, s)
              | Inr key \<Rightarrow>
                  (case findOneBy (flowRepo s) key of
                     Some fl \<Rightarrow>
                       (Inr True,
                        s\<lparr>flowRepo := update_schedule (flow_id fl)
                             \<lparr>schedule_type = ScheduleType_CRON_EXPRESSION,
                              timezone = t, cronExpression = p\<rparr> (flowRepo s)\<rparr>)
                   | None \<Rightarrow> (Inr False, s)))
         | _ \<Rightarrow> (Inr False, s))"

text \<open>\<open>jobDataSchemaVersionIsNotLatest\<close>.\<close>

definition jobDataSchemaVersionIsNotLatest :: "job option \<Rightarrow> bool" where
  "jobDataSchemaVersionIsNotLatest mj =
     (case mj of
        None \<Rightarrow> False
      | Some j \<Rightarrow>
          (case data j of
             None \<Rightarrow> False
           | Some d \<Rightarrow> d \<noteq> JNull \<and>
               property d ''schemaVersion'' \<noteq> Some (JNum LATEST_JOB_DATA_SCHEMA_VERSION)))"

text \<open>
  The variables of one iteration of the loop of \<open>migrateScheduledJobs\<close>: the job object,
  the working copy of its payload, and the counter, which lives across iterations.
\<close>

record locals =
  job :: job
  modifiedJobData :: json
  migratedJobs :: nat

text \<open>The first \<open>if\<close> of the loop body (source lines 250 to 266): version 1 to 2.\<close>

definition migrate_v1_to_v2 :: "nat \<Rightarrow> locals \<Rightarrow> state \<Rightarrow> (error + locals) \<times> state" where
  "migrate_v1_to_v2 i l s =
     (let m = modifiedJobData l in
      if property m ''schemaVersion'' = None \<or> property m ''schemaVersion'' = Some (JNum 1) then
        (let flowVersion = property m ''flowVersion'';
             projectId = property m ''projectId'';
             triggerType = property m ''triggerType''
         in case member flowVersion ''id'' of
              Inl e \<Rightarrow> (Inl e, s)
            | Inr flowVersion_id \<Rightarrow>
                (case member flowVersion ''flowId'' of
                   Inl e \<Rightarrow> (Inl e, s)
                 | Inr flowVersion_flowId \<Rightarrow>
                     (let m' = object
                            [(''schemaVersion'', Some (JNum 2)),
                             (''flowVersionId'', flowVersion_id),
                             (''flowId'', flowVersion_flowId),
                             (''projectId'', projectId),
                             (''environment'', Some RunEnvironment_PRODUCTION),
                             (''executionType'', Some ExecutionType_BEGIN),
                             (''triggerType'', triggerType)];
                          (j', s') = updateData i (job l) m' s
                      in (Inr \<lparr>job = j', modifiedJobData = m',
                               migratedJobs = migratedJobs l + 1\<rparr>, s'))))
      else (Inr l, s))"

text \<open>The second \<open>if\<close> (source lines 267 to 274): version 2 to 3.\<close>

definition migrate_v2_to_v3 :: "nat \<Rightarrow> locals \<Rightarrow> state \<Rightarrow> (error + locals) \<times> state" where
  "migrate_v2_to_v3 i l s =
     (let m = modifiedJobData l in
      if property m ''schemaVersion'' = Some (JNum 2) then
        (case updateCronExpressionOfRedisToPostgresTable (job l) s of
           (Inl e, s1) \<Rightarrow> (Inl e, s1)
         | (Inr updated, s1) \<Rightarrow>
             if updated then
               (let m' = assign m ''schemaVersion'' (Some (JNum 3));
                    (j', s') = updateData i (job l) m' s1
                in (Inr \<lparr>job = j', modifiedJobData = m',
                         migratedJobs = migratedJobs l + 1\<rparr>, s'))
             else (Inr l, s1))
      else (Inr l, s))"

text \<open>The third \<open>if\<close> (source lines 275 to 287): version 3 to 4.\<close>

definition migrate_v3_to_v4 :: "nat \<Rightarrow> locals \<Rightarrow> state \<Rightarrow> (error + locals) \<times> state" where
  "migrate_v3_to_v4 i l s =
     (let m = modifiedJobData l in
      if property m ''schemaVersion'' = Some (JNum 3) then
        (let m1 = assign m ''schemaVersion'' (Some (JNum 4));
             m2 = (if property m1 ''executionType'' = Some ExecutionType_BEGIN
                   then assign m1 ''jobType'' (Some RepeatableJobType_EXECUTE_TRIGGER)
                   else m1);
             m3 = (if property m2 ''executionType'' = Some ExecutionType_RESUME
                   then assign m2 ''jobType'' (Some RepeatableJobType_DELAYED_FLOW)
                   else m2);
             m4 = assign m3 ''executionType'' None;
             (j', s') = updateData i (job l) m4 s
         in (Inr \<lparr>job = j', modifiedJobData = m4,
                  migratedJobs = migratedJobs l + 1\<rparr>, s'))
      else (Inr l, s))"

text \<open>
  One iteration of \<open>for (const job of jobsToMigrate)\<close>, for the job at position \<open>i\<close>,
  with the counter \<open>n\<close>. The first statement copies the payload and reads its schema
  version, which raises on a payload that is \<open>undefined\<close> or \<open>null\<close>.
\<close>

definition migrateJob :: "nat \<Rightarrow> job \<Rightarrow> nat \<Rightarrow> state \<Rightarrow> (error + nat) \<times> state" where
  "migrateJob i j n s =
     (case json_copy (data j) of
        Inl e \<Rightarrow> (Inl e, s)
      | Inr m \<Rightarrow>
          (case member (Some m) ''schemaVersion'' of
             Inl e \<Rightarrow> (Inl e, s)
           | Inr v \<Rightarrow>
               (case migrate_v1_to_v2 i \<lparr>job = j, modifiedJobData = m, migratedJobs = n\<rparr> s of
                  (Inl e, s1) \<Rightarrow> (Inl e, s1)
                | (Inr l1, s1) \<Rightarrow>
                    (case migrate_v2_to_v3 i l1 s1 of
                       (Inl e, s2) \<Rightarrow> (Inl e, s2)
                     | (Inr l2, s2) \<Rightarrow>
                         (case migrate_v3_to_v4 i l2 s2 of
                            (Inl e, s3) \<Rightarrow> (Inl e, s3)
                          | (Inr l3, s3) \<Rightarrow> (Inr (migratedJobs l3), s3))))))"

text \<open>The loop: an error raised by an iteration leaves the loop.\<close>

fun migrateJobs :: "(nat \<times> job) list \<Rightarrow> nat \<Rightarrow> state \<Rightarrow> (error + nat) \<times> state" where
  "migrateJobs [] n s = (Inr n, s)"
| "migrateJobs ((i, j) # js) n s =
     (case migrateJob i j n s of
        (Inl e, s') \<Rightarrow> (Inl e, s')
      | (Inr n', s') \<Rightarrow> migrateJobs js n' s')"

text \<open>\<open>scheduledJobs.filter(jobDataSchemaVersionIsNotLatest)\<close>, each job with its
  position in the queue.\<close>

definition jobsToMigrate :: "job option list \<Rightarrow> (nat \<times> job) list" where
  "jobsToMigrate scheduledJobs =
     List.map_filter
       (\<lambda>(i, mj). if jobDataSchemaVersionIsNotLatest mj then map_option (Pair i) mj else None)
       (zip [0..<length scheduledJobs] scheduledJobs)"

text \<open>
  \<open>migrateScheduledJobs\<close>: the lock is acquired before the \<open>try\<close>, so a failed
  acquisition leaves the function at once; the \<open>finally\<close> releases the lock whether the
  loop ended or raised; the count is logged only when the loop ended.
\<close>

definition migrateScheduledJobs :: "state \<Rightarrow> (error + unit) \<times> state" where
  "migrateScheduledJobs s =
     (case acquireLock ''jobs_lock'' s of
        (Inl e, s0) \<Rightarrow> (Inl e, s0)
      | (Inr migrationLock, s0) \<Rightarrow>
          (case migrateJobs (jobsToMigrate (scheduledJobQueue s0)) 0 s0 of
             (Inl e, s1) \<Rightarrow> (Inl e, release migrationLock s1)
           | (Inr n, s1) \<Rightarrow>
               (Inr (), release migrationLock (s1\<lparr>log := log s1 @ [MigratedJobs n]\<rparr>))))"

text \<open>\<open>redisQueueManager.init\<close>: the two queue objects are created, then the migration
  runs.\<close>

definition init :: "state \<Rightarrow> (error + unit) \<times> state" where
  "init s = migrateScheduledJobs s"

section \<open>Removing a repeating job\<close>

text \<open>\<open>job.data.k\<close> of a job whose payload is an object (\<open>undefined\<close> for a payload
  without that property).\<close>

definition data_field :: "job \<Rightarrow> string \<Rightarrow> json option" where
  "data_field f k = (case data f of None \<Rightarrow> None | Some d \<Rightarrow> property d k)"

text \<open>The fallback of \<open>findRepeatableJobKey\<close> (source line 217):
  \<open>jobs.filter(f => !isNil(f) && !isNil(f.data)).find(f => f.data.flowVersionId === id)?.repeatJobKey\<close>,
  the key of the first job of the queue whose payload has the given \<open>flowVersionId\<close>.\<close>

definition scanScheduledJobs :: "string \<Rightarrow> job option list \<Rightarrow> string option" where
  "scanScheduledJobs ident jobs =
     (case find (\<lambda>f. data_field f ''flowVersionId'' = Some (JStr ident))
               (filter (\<lambda>f. \<not> isNil (data f)) (List.map_filter (\<lambda>mj. mj) jobs)) of
        None \<Rightarrow> None
      | Some f \<Rightarrow> repeatJobKey f)"

text \<open>\<open>findRepeatableJobKey\<close>: the side mapping first, the scan of the queue only on a
  miss.\<close>

definition findRepeatableJobKey :: "string \<Rightarrow> state \<Rightarrow> string option" where
  "findRepeatableJobKey ident s =
     (case redis s (repeatingJobKey ident) of
        None \<Rightarrow> scanScheduledJobs ident (scheduledJobQueue s)
      | Some jobKey \<Rightarrow> Some jobKey)"

text \<open>
  \<open>redisQueueManager.removeRepeatingJob\<close>. The broker's \<open>removeRepeatableByKey\<close>
  removes the key from its repeat schedules and returns whether it was there.
\<close>

definition removeRepeatingJob :: "string \<Rightarrow> state \<Rightarrow> (error + unit) \<times> state" where
  "removeRepeatingJob ident s =
     (case findRepeatableJobKey ident s of
        None \<Rightarrow>
          (Inr (), s\<lparr>log := log s @
             [HandledException
               (''Couldn't find job key for id '' @ [CHR 0x22] @ ident @ [CHR 0x22])]\<rparr>)
      | Some jobKey \<Rightarrow>
          (let result = (jobKey \<in> repeatableKeys s);
               s1 = s\<lparr>repeatableKeys := repeatableKeys s - {jobKey}\<rparr>;
               s2 = s1\<lparr>redis := (redis s1)(repeatingJobKey ident := None)\<rparr>
           in if \<not> result
              then (Inl (ActivepiecesError JOB_REMOVAL_FAILURE [(''jobId'', ident)]), s2)
              else (Inr (), s2)))"

text \<open>How a caller tells the kind of an error, as the \<open>catch\<close> of
  \<^verbatim>\<open>cloud-flow-worker-hooks.ts\<close> does:
  \<open>e instanceof ActivepiecesError && e.error.code === code\<close>.\<close>

fun has_code :: "error \<Rightarrow> ErrorCode \<Rightarrow> bool" where
  "has_code (ActivepiecesError c params) code = (c = code)"
| "has_code e code = False"

section \<open>Notions used in the proofs\<close>

text \<open>The backfill of the step from version 2 to 3 succeeds exactly when the job has
  both repeat options and the flow table has a flow for the key.\<close>

definition backfill_possible :: "flow list \<Rightarrow> repeatOptions option \<Rightarrow> json option \<Rightarrow> bool" where
  "backfill_possible flows opts key \<longleftrightarrow>
     (\<exists>r t p. opts = Some r \<and> tz r = Some t \<and> pattern r = Some p) \<and> findOneBy flows key \<noteq> None"

text \<open>What an iteration of the migration loop leaves alone: the length of the queue,
  the published versions of the flows (the backfill writes schedules only), the
  broker's repeat schedules, the side mapping, the locks and the log.\<close>

definition frame :: "state \<Rightarrow> state \<Rightarrow> bool" where
  "frame s s' \<longleftrightarrow>
     length (scheduledJobQueue s') = length (scheduledJobQueue s)
     \<and> map publishedVersionId (flowRepo s') = map publishedVersionId (flowRepo s)
     \<and> repeatableKeys s' = repeatableKeys s \<and> redis s' = redis s
     \<and> locks s' = locks s \<and> log s' = log s"

text \<open>The iteration for the job \<open>j\<close> at position \<open>i\<close> has stored the payload \<open>m\<close>.\<close>

definition stored :: "nat \<Rightarrow> job \<Rightarrow> json \<Rightarrow> state \<Rightarrow> state \<Rightarrow> bool" where
  "stored i j m s s' \<longleftrightarrow>
     frame s s' \<and> scheduledJobQueue s' = (scheduledJobQueue s)[i := Some (j\<lparr>data := Some m\<rparr>)]"

text \<open>A job that the loop body leaves as it is: its version is none of those a step
  starts from, or it is 2 and the backfill cannot succeed.\<close>

definition stable :: "flow list \<Rightarrow> job \<Rightarrow> bool" where
  "stable flows j \<longleftrightarrow>
     (\<exists>m. data j = Some m
        \<and> property m ''schemaVersion'' \<noteq> None
        \<and> property m ''schemaVersion'' \<noteq> Some (JNum 1)
        \<and> property m ''schemaVersion'' \<noteq> Some (JNum 3)
        \<and> (property m ''schemaVersion'' = Some (JNum 2)
             \<longrightarrow> \<not> backfill_possible flows (repeat j) (property m ''flowVersionId'')))"

text \<open>A job on which the loop body raises \<open>e\<close>, in every state and before any write.\<close>

definition raising :: "error \<Rightarrow> job \<Rightarrow> bool" where
  "raising e j \<longleftrightarrow> (\<forall>i n t. migrateJob i j n t = (Inl e, t))"

text \<open>The jobs to migrate of a part of the queue that starts at position \<open>k\<close>.\<close>

definition jobsFrom :: "nat \<Rightarrow> job option list \<Rightarrow> (nat \<times> job) list" where
  "jobsFrom k xs =
     List.map_filter
       (\<lambda>(i, mj). if jobDataSchemaVersionIsNotLatest mj then map_option (Pair i) mj else None)
       (zip [k..<k + length xs] xs)"

text \<open>The entry \<open>x\<close> of the queue has become \<open>y\<close>: it was not to be migrated and is
  unchanged, or \<open>y\<close> is what an iteration of the loop that returned has left at its
  position, in a state whose flows have the published versions \<open>pv\<close>.\<close>

definition processed :: "string option list \<Rightarrow> job option \<Rightarrow> job option \<Rightarrow> bool" where
  "processed pv x y \<longleftrightarrow>
     (\<not> jobDataSchemaVersionIsNotLatest x \<and> y = x)
     \<or> (\<exists>j i n t n' t'. x = Some j \<and> jobDataSchemaVersionIsNotLatest x
           \<and> map publishedVersionId (flowRepo t) = pv
           \<and> i < length (scheduledJobQueue t) \<and> scheduledJobQueue t ! i = x
           \<and> migrateJob i j n t = (Inr n', t') \<and> scheduledJobQueue t' ! i = y)"

text \<open>A loop that raised \<open>e\<close>: the entries before the raising job are processed, the
  raising job and the entries after it are unchanged.\<close>

definition interrupted ::
  "string option list \<Rightarrow> error \<Rightarrow> job option list \<Rightarrow> job option list \<Rightarrow> bool" where
  "interrupted pv e xs ys \<longleftrightarrow>
     (\<exists>xs1 j xs2 ys1. xs = xs1 @ Some j # xs2 \<and> ys = ys1 @ Some j # xs2
        \<and> list_all2 (processed pv) xs1 ys1
        \<and> jobDataSchemaVersionIsNotLatest (Some j) \<and> raising e j)"


text \<open>One property of every payload of the queue, in queue order.\<close>

definition queue_field :: "state \<Rightarrow> string \<Rightarrow> json option list" where
  "queue_field s k =
     map (\<lambda>x. case x of None \<Rightarrow> None | Some j \<Rightarrow> data_field j k) (scheduledJobQueue s)"

section \<open>Example states\<close>

text \<open>
  Jobs and states on which the theorems below are evaluated. \<open>job_v1\<close> is a payload
  without schema version that embeds its flow version, on a cron schedule;
  \<open>job_v1_unpublished\<close> is the same for a flow version that no flow has published;
  \<open>job_no_flowVersion\<close> has an empty payload; \<open>job_v3\<close> is at version 3;
  \<open>job_v2_unpublished\<close> is at version 2, for a flow version that no flow has published;
  \<open>job_v1_no_repeat\<close> is \<open>job_v1\<close> without repeat options. Three jobs are at the latest
  version with \<open>flowVersionId\<close> \<open>fv1\<close>: \<open>job_delayed_fv1\<close>, a delayed run without
  \<open>repeatJobKey\<close>; \<open>job_repeating_fv1\<close>, the repeating job of the schedule \<open>key1\<close>;
  \<open>job_stale_fv1\<close>, whose key \<open>key0\<close> the broker does not hold.
\<close>

definition job_v1 :: job where
  "job_v1 =
     \<lparr>data = Some (JObj [(''flowVersion'', JObj [(''id'', JStr ''fv1''), (''flowId'', JStr ''f1'')]),
                         (''projectId'', JStr ''p1''),
                         (''triggerType'', JStr ''SCHEDULE''),
                         (''executionType'', JStr ''RESUME'')]),
      repeat = Some \<lparr>tz = Some ''UTC'', pattern = Some ''*/5 * * * *''\<rparr>,
      repeatJobKey = Some ''key1''\<rparr>"

definition job_v1_unpublished :: job where
  "job_v1_unpublished =
     \<lparr>data = Some (JObj [(''schemaVersion'', JNum 1),
                         (''flowVersion'', JObj [(''id'', JStr ''fv9''), (''flowId'', JStr ''f9'')]),
                         (''projectId'', JStr ''p1'')]),
      repeat = Some \<lparr>tz = Some ''UTC'', pattern = Some ''0 * * * *''\<rparr>,
      repeatJobKey = Some ''key9''\<rparr>"

definition job_no_flowVersion :: job where
  "job_no_flowVersion = \<lparr>data = Some (JObj []), repeat = None, repeatJobKey = None\<rparr>"

definition job_v3 :: job where
  "job_v3 =
     \<lparr>data = Some (JObj [(''schemaVersion'', JNum 3),
                         (''flowVersionId'', JStr ''fv3''),
                         (''executionType'', JStr ''RESUME'')]),
      repeat = None,
      repeatJobKey = Some ''key3''\<rparr>"

definition job_v2_unpublished :: job where
  "job_v2_unpublished =
     \<lparr>data = Some (JObj [(''schemaVersion'', JNum 2),
                         (''flowVersionId'', JStr ''fv9''),
                         (''executionType'', JStr ''BEGIN'')]),
      repeat = Some \<lparr>tz = Some ''UTC'', pattern = Some ''0 * * * *''\<rparr>,
      repeatJobKey = Some ''key9''\<rparr>"

definition job_v1_no_repeat :: job where
  "job_v1_no_repeat =
     \<lparr>data = Some (JObj [(''flowVersion'', JObj [(''id'', JStr ''fv1''), (''flowId'', JStr ''f1'')]),
                         (''projectId'', JStr ''p1'')]),
      repeat = None,
      repeatJobKey = None\<rparr>"




definition example_state :: "job option list \<Rightarrow> state" where
  "example_state jobs =
     \<lparr>scheduledJobQueue = jobs,
      repeatableKeys = {''key1''},
      redis = Map.empty,
      flowRepo = [\<lparr>flow_id = ''f1'', publishedVersionId = Some ''fv1'', schedule = None\<rparr>],
      locks = {},
      log = []\<rparr>"

section \<open>Evaluation\<close>

lemmas example_defs = job_v1_def job_v1_unpublished_def job_no_flowVersion_def job_v3_def example_state_def
lemmas enum_defs = LATEST_JOB_DATA_SCHEMA_VERSION_def ExecutionType_BEGIN_def ExecutionType_RESUME_def
  RunEnvironment_PRODUCTION_def RepeatableJobType_EXECUTE_TRIGGER_def RepeatableJobType_DELAYED_FLOW_def ScheduleType_CRON_EXPRESSION_def
lemmas migration_defs = init_def migrateScheduledJobs_def acquireLock_def release_def jobsToMigrate_def
  jobDataSchemaVersionIsNotLatest_def migrateJob_def migrate_v1_to_v2_def migrate_v2_to_v3_def migrate_v3_to_v4_def
  updateCronExpressionOfRedisToPostgresTable_def updateData_def findOneBy_def update_schedule_def object_def
  List.map_filter_def Let_def
lemmas removal_defs = removeRepeatingJob_def findRepeatableJobKey_def scanScheduledJobs_def data_field_def
  repeatingJobKey_def List.map_filter_def

section \<open>The step from version 3 to version 4\<close>

lemma property_Some_obj: "property d k = Some v \<Longrightarrow> \<exists>kvs. d = JObj kvs"
  by (cases d) simp_all

text \<open>C5. The step from version 3 to 4 always returns on a payload at schema version 3:
  the version becomes 4, \<open>jobType\<close> becomes \<open>EXECUTE_TRIGGER\<close> when \<open>executionType\<close> was
  \<open>BEGIN\<close> and \<open>DELAYED_FLOW\<close> when it was \<open>RESUME\<close>, \<open>executionType\<close> is cleared, and
  the rewritten payload is stored on the job; the counter grows by one.\<close>

theorem C5_v3_to_v4:
  assumes "property (modifiedJobData l) ''schemaVersion'' = Some (JNum 3)"
  shows "\<exists>l' s'. migrate_v3_to_v4 i l s = (Inr l', s')
     \<and> property (modifiedJobData l') ''schemaVersion'' = Some (JNum 4)
     \<and> property (modifiedJobData l') ''executionType'' = None
     \<and> (property (modifiedJobData l) ''executionType'' = Some ExecutionType_BEGIN
          \<longrightarrow> property (modifiedJobData l') ''jobType'' = Some RepeatableJobType_EXECUTE_TRIGGER)
     \<and> (property (modifiedJobData l) ''executionType'' = Some ExecutionType_RESUME
          \<longrightarrow> property (modifiedJobData l') ''jobType'' = Some RepeatableJobType_DELAYED_FLOW)
     \<and> migratedJobs l' = migratedJobs l + 1
     \<and> data (job l') = Some (modifiedJobData l')
     \<and> (i < length (scheduledJobQueue s) \<longrightarrow> scheduledJobQueue s' ! i = Some (job l'))"
proof -
  from assms obtain kvs where m: "modifiedJobData l = JObj kvs"
    using property_Some_obj by blast
  with assms have v: "map_of kvs ''schemaVersion'' = Some (JNum 3)" by simp
  show ?thesis
    using v by (simp add: migrate_v3_to_v4_def m updateData_def Let_def update_conv' delete_conv' enum_defs)
qed

text \<open>C5, witness: the step on the payload of \<open>job_v3\<close>, whose \<open>executionType\<close> is
  \<open>RESUME\<close>.\<close>

theorem C5_v3_to_v4_witness:
  "\<exists>l' s'. migrate_v3_to_v4 0 \<lparr>job = job_v3, modifiedJobData = JObj [(''schemaVersion'', JNum 3), (''flowVersionId'', JStr ''fv3''),
                         (''executionType'', JStr ''RESUME'')], migratedJobs = 0\<rparr> (example_state [Some job_v3]) = (Inr l', s')
     \<and> property (modifiedJobData l') ''schemaVersion'' = Some (JNum 4)
     \<and> property (modifiedJobData l') ''executionType'' = None
     \<and> property (modifiedJobData l') ''jobType'' = Some RepeatableJobType_DELAYED_FLOW
     \<and> migratedJobs l' = 1
     \<and> scheduledJobQueue s' ! 0 = Some (job l')"
  using C5_v3_to_v4 [of "\<lparr>job = job_v3, modifiedJobData = JObj [(''schemaVersion'', JNum 3), (''flowVersionId'', JStr ''fv3''),
                         (''executionType'', JStr ''RESUME'')], migratedJobs = 0\<rparr>" 0 "example_state [Some job_v3]"]
  by (auto simp: enum_defs example_state_def)

section \<open>The migration lock\<close>

text \<open>C3, as amended: when the migration lock cannot be acquired, \<open>init\<close> skips the
  migration pass (the state is left as it was: no job is read or rewritten) and fails
  with the error of the lock service.\<close>

theorem C3_lock_failure:
  "''jobs_lock'' \<in> locks s \<Longrightarrow> init s = (Inl (LockAcquisitionError ''jobs_lock''), s)"
  by (simp add: init_def migrateScheduledJobs_def acquireLock_def)

text \<open>C3, witness: a state in which another process holds \<open>jobs_lock\<close>.\<close>

theorem C3_lock_failure_witness:
  "''jobs_lock'' \<in> locks ((example_state [Some job_v3])\<lparr>locks := {''jobs_lock''}\<rparr>)
   \<and> init ((example_state [Some job_v3])\<lparr>locks := {''jobs_lock''}\<rparr>)
       = (Inl (LockAcquisitionError ''jobs_lock''), (example_state [Some job_v3])\<lparr>locks := {''jobs_lock''}\<rparr>)"
  using C3_lock_failure [of "(example_state [Some job_v3])\<lparr>locks := {''jobs_lock''}\<rparr>"]
  by (simp add: example_state_def)

text \<open>C3, counterexample: with \<open>jobs_lock\<close> held by another process, \<open>init\<close> does not
  complete successfully.\<close>

theorem C3_counterexample:
  "fst (init ((example_state [Some job_v3])\<lparr>locks := {''jobs_lock''}\<rparr>)) \<noteq> Inr ()"
  by (simp add: example_defs enum_defs migration_defs)

section \<open>Removal of a repeating job\<close>

lemma has_code_JOB_REMOVAL_FAILURE:
  "has_code e JOB_REMOVAL_FAILURE \<longleftrightarrow> (\<exists>params. e = ActivepiecesError JOB_REMOVAL_FAILURE params)"
  by (cases e) auto







text \<open>C4. \<open>removeRepeatingJob\<close>: when neither the side mapping nor the scan of the
  queue gives a key, the anomaly is handed to the exception handler and the call
  returns; when a key is found that the broker does not hold as a repeat schedule, the
  call fails with \<open>JOB_REMOVAL_FAILURE\<close> carrying the job id; that is the only error the
  call raises, and the test on the error code holds of errors of that code alone.\<close>

theorem C4_removeRepeatingJob:
  "(redis s (repeatingJobKey ident) = None \<and> scanScheduledJobs ident (scheduledJobQueue s) = None
      \<longrightarrow> removeRepeatingJob ident s =
            (Inr (), s\<lparr>log := log s @ [HandledException
               (''Couldn't find job key for id '' @ [CHR 0x22] @ ident @ [CHR 0x22])]\<rparr>))
   \<and> (findRepeatableJobKey ident s = Some jobKey \<and> jobKey \<notin> repeatableKeys s
      \<longrightarrow> fst (removeRepeatingJob ident s)
            = Inl (ActivepiecesError JOB_REMOVAL_FAILURE [(''jobId'', ident)]))
   \<and> (fst (removeRepeatingJob ident s) = Inl e
      \<longrightarrow> e = ActivepiecesError JOB_REMOVAL_FAILURE [(''jobId'', ident)])
   \<and> (has_code e' JOB_REMOVAL_FAILURE
      \<longleftrightarrow> (\<exists>params. e' = ActivepiecesError JOB_REMOVAL_FAILURE params))"
  by (auto simp: removeRepeatingJob_def findRepeatableJobKey_def Let_def
        has_code_JOB_REMOVAL_FAILURE split: option.splits if_splits)

text \<open>C4, witness: \<open>fv7\<close> has no key at all; \<open>fv3\<close> is found by the scan with
  \<open>key3\<close>, which the broker does not hold.\<close>

theorem C4_removeRepeatingJob_witness:
  "removeRepeatingJob ''fv7'' (example_state [Some job_v3])
     = (Inr (), (example_state [Some job_v3])\<lparr>log := [HandledException
               (''Couldn't find job key for id '' @ [CHR 0x22] @ ''fv7'' @ [CHR 0x22])]\<rparr>)
   \<and> fst (removeRepeatingJob ''fv3'' (example_state [Some job_v3]))
       = Inl (ActivepiecesError JOB_REMOVAL_FAILURE [(''jobId'', ''fv3'')])
   \<and> \<not> has_code TypeError JOB_REMOVAL_FAILURE"
proof -
  let ?s = "example_state [Some job_v3]"
  have a: "redis ?s (repeatingJobKey ''fv7'') = None
      \<and> scanScheduledJobs ''fv7'' (scheduledJobQueue ?s) = None"
    by (simp add: example_defs removal_defs)
  have b: "findRepeatableJobKey ''fv3'' ?s = Some ''key3'' \<and> ''key3'' \<notin> repeatableKeys ?s"
    by (simp add: example_defs removal_defs)
  have l: "log ?s = []" by (simp add: example_state_def)
  have 1: "removeRepeatingJob ''fv7'' ?s = (Inr (), ?s\<lparr>log := log ?s @ [HandledException
               (''Couldn't find job key for id '' @ [CHR 0x22] @ ''fv7'' @ [CHR 0x22])]\<rparr>)"
    using C4_removeRepeatingJob [of ?s "''fv7''", THEN conjunct1] a by (rule mp)
  have 2: "fst (removeRepeatingJob ''fv3'' ?s)
       = Inl (ActivepiecesError JOB_REMOVAL_FAILURE [(''jobId'', ''fv3'')])"
    using C4_removeRepeatingJob [of ?s "''fv3''" "''key3''", THEN conjunct2, THEN conjunct1] b
    by (rule mp)
  have 3: "\<not> has_code TypeError JOB_REMOVAL_FAILURE"
    using C4_removeRepeatingJob [of ?s "''fv3''" "''key3''" TypeError TypeError,
        THEN conjunct2, THEN conjunct2, THEN conjunct2] by simp
  show ?thesis using 1 2 3 unfolding l by simp
qed




text \<open>C9. Whenever \<open>removeRepeatingJob\<close> finds a key, the entry of the side mapping is
  deleted, also when the broker does not hold the key and \<open>JOB_REMOVAL_FAILURE\<close> is
  raised; the next \<open>findRepeatableJobKey\<close> for the id is answered by the scan of the
  queue.\<close>

theorem C9_mapping_deleted:
  assumes "findRepeatableJobKey ident s = Some jobKey"
    and "removeRepeatingJob ident s = (r, s')"
  shows "redis s' (repeatingJobKey ident) = None
     \<and> (jobKey \<notin> repeatableKeys s
          \<longrightarrow> r = Inl (ActivepiecesError JOB_REMOVAL_FAILURE [(''jobId'', ident)]))
     \<and> scheduledJobQueue s' = scheduledJobQueue s
     \<and> findRepeatableJobKey ident s' = scanScheduledJobs ident (scheduledJobQueue s)"
  using assms
  by (auto simp: removeRepeatingJob_def findRepeatableJobKey_def Let_def split: if_splits)

text \<open>C9, witness: the side mapping holds a key that the broker no longer has.\<close>

theorem C9_mapping_deleted_witness:
  "findRepeatableJobKey ''fv1'' ((example_state [Some job_v3])\<lparr>redis := [repeatingJobKey ''fv1'' \<mapsto> ''gone'']\<rparr>) = Some ''gone''
   \<and> fst (removeRepeatingJob ''fv1'' ((example_state [Some job_v3])\<lparr>redis := [repeatingJobKey ''fv1'' \<mapsto> ''gone'']\<rparr>))
       = Inl (ActivepiecesError JOB_REMOVAL_FAILURE [(''jobId'', ''fv1'')])
   \<and> redis (snd (removeRepeatingJob ''fv1'' ((example_state [Some job_v3])\<lparr>redis := [repeatingJobKey ''fv1'' \<mapsto> ''gone'']\<rparr>)))
        (repeatingJobKey ''fv1'') = None"
proof -
  let ?s = "(example_state [Some job_v3])\<lparr>redis := [repeatingJobKey ''fv1'' \<mapsto> ''gone'']\<rparr>"
  have h: "findRepeatableJobKey ''fv1'' ?s = Some ''gone''"
    by (simp add: findRepeatableJobKey_def example_state_def)
  have k: "''gone'' \<notin> repeatableKeys ?s" by (simp add: example_state_def)
  show ?thesis
    using h k C9_mapping_deleted [OF h, of "fst (removeRepeatingJob ''fv1'' ?s)" "snd (removeRepeatingJob ''fv1'' ?s)"]
    by simp
qed

section \<open>Payloads and the flow table\<close>

lemma frame_refl: "frame s s"
  by (simp add: frame_def)

lemma frame_trans: "frame s t \<Longrightarrow> frame t u \<Longrightarrow> frame s u"
  by (simp add: frame_def)

lemma property_object:
  "distinct (map fst fs) \<Longrightarrow>
     property (object fs) k = (case map_of fs k of Some (Some v) \<Rightarrow> Some v | _ \<Rightarrow> None)"
proof (induction fs)
  case Nil
  then show ?case by (simp add: object_def List.map_filter_def)
next
  case (Cons f fs)
  obtain k' v' where f: "f = (k', v')" by (cases f)
  from Cons.prems have nk: "k' \<notin> fst ` set fs" and d: "distinct (map fst fs)"
    by (simp_all add: f)
  have ih: "map_of (List.map_filter (\<lambda>(k, v). map_option (Pair k) v) fs) k
      = (case map_of fs k of Some (Some v) \<Rightarrow> Some v | _ \<Rightarrow> None)"
    using Cons.IH [OF d] by (simp add: object_def)
  have none: "k = k' \<Longrightarrow> map_of (List.map_filter (\<lambda>(k, v). map_option (Pair k) v) fs) k = None"
    using nk ih by (simp add: map_of_eq_None_iff [THEN iffD2] split: option.splits)
  have nk': "map_of fs k' = None"
    using nk by (simp add: map_of_eq_None_iff)
  show ?case
    by (cases v') (auto simp: object_def f List.map_filter_simps ih none nk')
qed

lemma map_publishedVersionId_update_schedule:
  "map publishedVersionId (update_schedule fid sch flows) = map publishedVersionId flows"
  by (induction flows) (simp_all add: update_schedule_def)

lemma findOneBy_None_iff:
  "findOneBy flows key = None
     \<longleftrightarrow> (\<forall>v. key = Some (JStr v) \<longrightarrow> Some v \<notin> set (map publishedVersionId flows))"
proof (cases key)
  case None
  then show ?thesis by (simp add: findOneBy_def)
next
  case (Some x)
  then show ?thesis
    by (cases x) (force simp: findOneBy_def find_None_iff image_iff)+
qed

lemma backfill_possible_cong:
  "map publishedVersionId flows' = map publishedVersionId flows \<Longrightarrow>
     backfill_possible flows' opts key = backfill_possible flows opts key"
  by (simp add: backfill_possible_def findOneBy_None_iff)

lemma updateCron_eq:
  assumes "data j = Some m" "m \<noteq> JNull"
  shows "\<exists>s'. updateCronExpressionOfRedisToPostgresTable j s
            = (Inr (backfill_possible (flowRepo s) (repeat j) (property m ''flowVersionId'')), s')
          \<and> scheduledJobQueue s' = scheduledJobQueue s \<and> frame s s'
          \<and> (\<not> backfill_possible (flowRepo s) (repeat j) (property m ''flowVersionId'') \<longrightarrow> s' = s)"
proof -
  have mem: "member (Some m) ''flowVersionId'' = Inr (property m ''flowVersionId'')"
    using assms(2) by (cases m) simp_all
  show ?thesis
    by (auto simp: updateCronExpressionOfRedisToPostgresTable_def assms(1) mem backfill_possible_def
          frame_def map_publishedVersionId_update_schedule
          split: option.splits)
qed

section \<open>The three steps\<close>

lemma member_not_nil: "v \<noteq> JNull \<Longrightarrow> member (Some v) k = Inr (property v k)"
  by (cases v) simp_all

lemma member_nil: "isNil v \<Longrightarrow> member v k = Inl TypeError"
  by (cases v; cases "the v") simp_all

lemma not_isNil_iff: "\<not> isNil v \<longleftrightarrow> (\<exists>x. v = Some x \<and> x \<noteq> JNull)"
  by (cases v; cases "the v") simp_all

lemma migrate_v1_to_v2_skip:
  assumes "property (modifiedJobData l) ''schemaVersion'' \<noteq> None"
    and "property (modifiedJobData l) ''schemaVersion'' \<noteq> Some (JNum 1)"
  shows "migrate_v1_to_v2 i l s = (Inr l, s)"
  using assms by (auto simp: migrate_v1_to_v2_def Let_def)

lemma migrate_v1_to_v2_raise:
  assumes "property (modifiedJobData l) ''schemaVersion'' = None
           \<or> property (modifiedJobData l) ''schemaVersion'' = Some (JNum 1)"
    and "isNil (property (modifiedJobData l) ''flowVersion'')"
  shows "migrate_v1_to_v2 i l s = (Inl TypeError, s)"
  using assms by (auto simp: migrate_v1_to_v2_def member_nil)

lemma migrate_v1_to_v2_run:
  assumes "property (modifiedJobData l) ''schemaVersion'' = None
           \<or> property (modifiedJobData l) ''schemaVersion'' = Some (JNum 1)"
    and "property (modifiedJobData l) ''flowVersion'' = Some fv" and "fv \<noteq> JNull"
  shows "\<exists>m'. migrate_v1_to_v2 i l s =
           (Inr \<lparr>job = (job l)\<lparr>data := Some m'\<rparr>, modifiedJobData = m',
                 migratedJobs = migratedJobs l + 1\<rparr>,
            s\<lparr>scheduledJobQueue := (scheduledJobQueue s)[i := Some ((job l)\<lparr>data := Some m'\<rparr>)]\<rparr>)
         \<and> property m' ''schemaVersion'' = Some (JNum 2)
         \<and> property m' ''executionType'' = Some ExecutionType_BEGIN
         \<and> property m' ''environment'' = Some RunEnvironment_PRODUCTION
         \<and> property m' ''flowVersionId'' = property fv ''id''
         \<and> property m' ''jobType'' = None"
proof -
  let ?m' = "object
        [(''schemaVersion'', Some (JNum 2)),
         (''flowVersionId'', property fv ''id''),
         (''flowId'', property fv ''flowId''),
         (''projectId'', property (modifiedJobData l) ''projectId''),
         (''environment'', Some RunEnvironment_PRODUCTION),
         (''executionType'', Some ExecutionType_BEGIN),
         (''triggerType'', property (modifiedJobData l) ''triggerType'')]"
  have run: "migrate_v1_to_v2 i l s =
           (Inr \<lparr>job = (job l)\<lparr>data := Some ?m'\<rparr>, modifiedJobData = ?m',
                 migratedJobs = migratedJobs l + 1\<rparr>,
            s\<lparr>scheduledJobQueue := (scheduledJobQueue s)[i := Some ((job l)\<lparr>data := Some ?m'\<rparr>)]\<rparr>)"
    using assms(1)
    by (auto simp: migrate_v1_to_v2_def assms(2) member_not_nil [OF assms(3)] updateData_def Let_def)
  have fields: "property ?m' ''schemaVersion'' = Some (JNum 2)"
      "property ?m' ''executionType'' = Some ExecutionType_BEGIN"
      "property ?m' ''environment'' = Some RunEnvironment_PRODUCTION"
      "property ?m' ''flowVersionId'' = property fv ''id''"
      "property ?m' ''jobType'' = None"
    by (simp_all add: property_object split: option.splits)
  show ?thesis using run fields by blast
qed

lemma migrate_v2_to_v3_skip:
  assumes "property (modifiedJobData l) ''schemaVersion'' \<noteq> Some (JNum 2)"
  shows "migrate_v2_to_v3 i l s = (Inr l, s)"
  using assms by (simp add: migrate_v2_to_v3_def)

lemma migrate_v2_to_v3_stuck:
  assumes "property (modifiedJobData l) ''schemaVersion'' = Some (JNum 2)"
    and "data (job l) = Some (modifiedJobData l)"
    and "\<not> backfill_possible (flowRepo s) (repeat (job l))
             (property (modifiedJobData l) ''flowVersionId'')"
  shows "migrate_v2_to_v3 i l s = (Inr l, s)"
proof -
  have nn: "modifiedJobData l \<noteq> JNull" using assms(1) by auto
  from updateCron_eq [OF assms(2) nn, of s] assms(3)
  have "updateCronExpressionOfRedisToPostgresTable (job l) s = (Inr False, s)" by auto
  then show ?thesis using assms(1) by (simp add: migrate_v2_to_v3_def)
qed

lemma migrate_v2_to_v3_run:
  assumes "property (modifiedJobData l) ''schemaVersion'' = Some (JNum 2)"
    and "data (job l) = Some (modifiedJobData l)"
    and "backfill_possible (flowRepo s) (repeat (job l))
             (property (modifiedJobData l) ''flowVersionId'')"
  shows "\<exists>m' s1. migrate_v2_to_v3 i l s =
           (Inr \<lparr>job = (job l)\<lparr>data := Some m'\<rparr>, modifiedJobData = m',
                 migratedJobs = migratedJobs l + 1\<rparr>,
            s1\<lparr>scheduledJobQueue := (scheduledJobQueue s)[i := Some ((job l)\<lparr>data := Some m'\<rparr>)]\<rparr>)
         \<and> frame s s1 \<and> scheduledJobQueue s1 = scheduledJobQueue s
         \<and> m' = assign (modifiedJobData l) ''schemaVersion'' (Some (JNum 3))"
proof -
  have nn: "modifiedJobData l \<noteq> JNull" using assms(1) by auto
  from updateCron_eq [OF assms(2) nn, of s] assms(3)
  obtain s1 where u: "updateCronExpressionOfRedisToPostgresTable (job l) s = (Inr True, s1)"
    and q: "scheduledJobQueue s1 = scheduledJobQueue s" and f: "frame s s1" by auto
  have "migrate_v2_to_v3 i l s =
      (Inr \<lparr>job = (job l)\<lparr>data := Some (assign (modifiedJobData l) ''schemaVersion'' (Some (JNum 3)))\<rparr>,
            modifiedJobData = assign (modifiedJobData l) ''schemaVersion'' (Some (JNum 3)),
            migratedJobs = migratedJobs l + 1\<rparr>,
       s1\<lparr>scheduledJobQueue := (scheduledJobQueue s)
           [i := Some ((job l)\<lparr>data := Some (assign (modifiedJobData l) ''schemaVersion'' (Some (JNum 3)))\<rparr>)]\<rparr>)"
    using assms(1) q by (simp add: migrate_v2_to_v3_def u updateData_def Let_def)
  then show ?thesis using q f by blast
qed

lemma migrate_v3_to_v4_skip:
  assumes "property (modifiedJobData l) ''schemaVersion'' \<noteq> Some (JNum 3)"
  shows "migrate_v3_to_v4 i l s = (Inr l, s)"
  using assms by (simp add: migrate_v3_to_v4_def)

lemma migrate_v3_to_v4_run:
  assumes "property (modifiedJobData l) ''schemaVersion'' = Some (JNum 3)"
  shows "\<exists>m'. migrate_v3_to_v4 i l s =
           (Inr \<lparr>job = (job l)\<lparr>data := Some m'\<rparr>, modifiedJobData = m',
                 migratedJobs = migratedJobs l + 1\<rparr>,
            s\<lparr>scheduledJobQueue := (scheduledJobQueue s)[i := Some ((job l)\<lparr>data := Some m'\<rparr>)]\<rparr>)
         \<and> property m' ''schemaVersion'' = Some (JNum 4)
         \<and> property m' ''executionType'' = None
         \<and> (property (modifiedJobData l) ''executionType'' = Some ExecutionType_BEGIN
              \<longrightarrow> property m' ''jobType'' = Some RepeatableJobType_EXECUTE_TRIGGER)
         \<and> (property (modifiedJobData l) ''executionType'' = Some ExecutionType_RESUME
              \<longrightarrow> property m' ''jobType'' = Some RepeatableJobType_DELAYED_FLOW)"
proof -
  from assms obtain kvs where m: "modifiedJobData l = JObj kvs"
    using property_Some_obj by blast
  with assms have v: "map_of kvs ''schemaVersion'' = Some (JNum 3)" by simp
  show ?thesis
    using v
    by (simp add: migrate_v3_to_v4_def m updateData_def Let_def update_conv' delete_conv' enum_defs)
qed

section \<open>One iteration of the loop\<close>

lemma migrateJob_unfold:
  assumes "data j = Some m" "m \<noteq> JNull"
  shows "migrateJob i j n s =
     (case migrate_v1_to_v2 i \<lparr>job = j, modifiedJobData = m, migratedJobs = n\<rparr> s of
        (Inl e, s1) \<Rightarrow> (Inl e, s1)
      | (Inr l1, s1) \<Rightarrow>
          (case migrate_v2_to_v3 i l1 s1 of
             (Inl e, s2) \<Rightarrow> (Inl e, s2)
           | (Inr l2, s2) \<Rightarrow>
               (case migrate_v3_to_v4 i l2 s2 of
                  (Inl e, s3) \<Rightarrow> (Inl e, s3)
                | (Inr l3, s3) \<Rightarrow> (Inr (migratedJobs l3), s3))))"
  by (simp add: migrateJob_def assms(1) member_not_nil [OF assms(2)])

lemma migrateJob_other:
  assumes "data j = Some m"
    and "property m ''schemaVersion'' \<noteq> None"
    and "property m ''schemaVersion'' \<noteq> Some (JNum 1)"
    and "property m ''schemaVersion'' \<noteq> Some (JNum 2)"
    and "property m ''schemaVersion'' \<noteq> Some (JNum 3)"
  shows "migrateJob i j n s = (Inr n, s)"
proof -
  have nn: "m \<noteq> JNull" using assms(2) by auto
  show ?thesis
    using assms(2-5)
    by (simp add: migrateJob_unfold [OF assms(1) nn] migrate_v1_to_v2_skip migrate_v2_to_v3_skip
          migrate_v3_to_v4_skip)
qed

lemma migrateJob_v3:
  assumes "data j = Some m" and "property m ''schemaVersion'' = Some (JNum 3)"
  shows "\<exists>m' s'. migrateJob i j n s = (Inr (n + 1), s') \<and> stored i j m' s s'
         \<and> property m' ''schemaVersion'' = Some (JNum 4)
         \<and> property m' ''executionType'' = None
         \<and> (property m ''executionType'' = Some ExecutionType_BEGIN
              \<longrightarrow> property m' ''jobType'' = Some RepeatableJobType_EXECUTE_TRIGGER)
         \<and> (property m ''executionType'' = Some ExecutionType_RESUME
              \<longrightarrow> property m' ''jobType'' = Some RepeatableJobType_DELAYED_FLOW)"
proof -
  have nn: "m \<noteq> JNull" using assms(2) by auto
  let ?l = "\<lparr>job = j, modifiedJobData = m, migratedJobs = n\<rparr>"
  from migrate_v3_to_v4_run [of ?l i s] assms(2)
  obtain m' where r: "migrate_v3_to_v4 i ?l s =
           (Inr \<lparr>job = j\<lparr>data := Some m'\<rparr>, modifiedJobData = m', migratedJobs = Suc n\<rparr>,
            s\<lparr>scheduledJobQueue := (scheduledJobQueue s)[i := Some (j\<lparr>data := Some m'\<rparr>)]\<rparr>)"
    and p: "property m' ''schemaVersion'' = Some (JNum 4)"
      "property m' ''executionType'' = None"
      "property m ''executionType'' = Some ExecutionType_BEGIN
              \<longrightarrow> property m' ''jobType'' = Some RepeatableJobType_EXECUTE_TRIGGER"
      "property m ''executionType'' = Some ExecutionType_RESUME
              \<longrightarrow> property m' ''jobType'' = Some RepeatableJobType_DELAYED_FLOW"
    by auto
  have run: "migrateJob i j n s = (Inr (Suc n),
        s\<lparr>scheduledJobQueue := (scheduledJobQueue s)[i := Some (j\<lparr>data := Some m'\<rparr>)]\<rparr>)"
    using assms(2)
    by (simp add: migrateJob_unfold [OF assms(1) nn] migrate_v1_to_v2_skip migrate_v2_to_v3_skip r)
  have st: "stored i j m' s
      (s\<lparr>scheduledJobQueue := (scheduledJobQueue s)[i := Some (j\<lparr>data := Some m'\<rparr>)]\<rparr>)"
    by (simp add: stored_def frame_def)
  show ?thesis using run st p by auto
qed

lemma migrateJob_v2_stuck:
  assumes "data j = Some m" and "property m ''schemaVersion'' = Some (JNum 2)"
    and "\<not> backfill_possible (flowRepo s) (repeat j) (property m ''flowVersionId'')"
  shows "migrateJob i j n s = (Inr n, s)"
proof -
  have nn: "m \<noteq> JNull" using assms(2) by auto
  let ?l = "\<lparr>job = j, modifiedJobData = m, migratedJobs = n\<rparr>"
  have 2: "migrate_v2_to_v3 i ?l s = (Inr ?l, s)"
    using assms by (intro migrate_v2_to_v3_stuck) simp_all
  show ?thesis
    using assms(2)
    by (simp add: migrateJob_unfold [OF assms(1) nn] migrate_v1_to_v2_skip 2 migrate_v3_to_v4_skip)
qed

lemma migrateJob_v2_run:
  assumes "data j = Some m" and "property m ''schemaVersion'' = Some (JNum 2)"
    and "backfill_possible (flowRepo s) (repeat j) (property m ''flowVersionId'')"
  shows "\<exists>m' s'. migrateJob i j n s = (Inr (n + 2), s') \<and> stored i j m' s s'
         \<and> property m' ''schemaVersion'' = Some (JNum 4)
         \<and> property m' ''executionType'' = None
         \<and> (property m ''executionType'' = Some ExecutionType_BEGIN
              \<longrightarrow> property m' ''jobType'' = Some RepeatableJobType_EXECUTE_TRIGGER)
         \<and> (property m ''executionType'' = Some ExecutionType_RESUME
              \<longrightarrow> property m' ''jobType'' = Some RepeatableJobType_DELAYED_FLOW)"
proof -
  have nn: "m \<noteq> JNull" using assms(2) by auto
  from assms(2) obtain kvs where obj: "m = JObj kvs" using property_Some_obj by blast
  let ?l = "\<lparr>job = j, modifiedJobData = m, migratedJobs = n\<rparr>"
  let ?m3 = "assign m ''schemaVersion'' (Some (JNum 3))"
  let ?l2 = "\<lparr>job = j\<lparr>data := Some ?m3\<rparr>, modifiedJobData = ?m3, migratedJobs = Suc n\<rparr>"
  from migrate_v2_to_v3_run [of ?l s i] assms
  obtain s1 where r2: "migrate_v2_to_v3 i ?l s =
        (Inr ?l2, s1\<lparr>scheduledJobQueue := (scheduledJobQueue s)[i := Some (j\<lparr>data := Some ?m3\<rparr>)]\<rparr>)"
    and f: "frame s s1" and q: "scheduledJobQueue s1 = scheduledJobQueue s"
    by auto
  let ?s2 = "s1\<lparr>scheduledJobQueue := (scheduledJobQueue s)[i := Some (j\<lparr>data := Some ?m3\<rparr>)]\<rparr>"
  have v3: "property ?m3 ''schemaVersion'' = Some (JNum 3)"
    and e3: "property ?m3 ''executionType'' = property m ''executionType''"
    by (simp_all add: obj update_conv')
  from migrate_v3_to_v4_run [of ?l2 i ?s2] v3
  obtain m' where r3: "migrate_v3_to_v4 i ?l2 ?s2 =
           (Inr \<lparr>job = j\<lparr>data := Some m'\<rparr>, modifiedJobData = m', migratedJobs = Suc (Suc n)\<rparr>,
            ?s2\<lparr>scheduledJobQueue := (scheduledJobQueue ?s2)[i := Some (j\<lparr>data := Some m'\<rparr>)]\<rparr>)"
    and p: "property m' ''schemaVersion'' = Some (JNum 4)"
      "property m' ''executionType'' = None"
      "property ?m3 ''executionType'' = Some ExecutionType_BEGIN
              \<longrightarrow> property m' ''jobType'' = Some RepeatableJobType_EXECUTE_TRIGGER"
      "property ?m3 ''executionType'' = Some ExecutionType_RESUME
              \<longrightarrow> property m' ''jobType'' = Some RepeatableJobType_DELAYED_FLOW"
    by auto
  let ?s3 = "?s2\<lparr>scheduledJobQueue := (scheduledJobQueue ?s2)[i := Some (j\<lparr>data := Some m'\<rparr>)]\<rparr>"
  have run: "migrateJob i j n s = (Inr (Suc (Suc n)), ?s3)"
    using assms(2)
    by (simp add: migrateJob_unfold [OF assms(1) nn] migrate_v1_to_v2_skip r2 r3)
  have st: "stored i j m' s ?s3"
    using f by (simp add: stored_def frame_def)
  show ?thesis using run st p unfolding e3 by auto
qed

lemma migrateJob_no_data:
  "isNil (data j) \<Longrightarrow> \<exists>e. migrateJob i j n s = (Inl e, s) \<and> (\<forall>i' n' t. migrateJob i' j n' t = (Inl e, t))"
  by (cases "data j"; cases "the (data j)") (simp_all add: migrateJob_def)

lemma migrateJob_raise:
  assumes "data j = Some m" and "m \<noteq> JNull"
    and "property m ''schemaVersion'' = None \<or> property m ''schemaVersion'' = Some (JNum 1)"
    and "isNil (property m ''flowVersion'')"
  shows "migrateJob i j n s = (Inl TypeError, s)"
proof -
  let ?l = "\<lparr>job = j, modifiedJobData = m, migratedJobs = n\<rparr>"
  have "migrate_v1_to_v2 i ?l s = (Inl TypeError, s)"
    using assms(3,4) by (intro migrate_v1_to_v2_raise) simp_all
  then show ?thesis
    by (simp add: migrateJob_unfold [OF assms(1,2)])
qed

lemma migrateJob_v1_stuck:
  assumes "data j = Some m"
    and "property m ''schemaVersion'' = None \<or> property m ''schemaVersion'' = Some (JNum 1)"
    and "property m ''flowVersion'' = Some fv" and "fv \<noteq> JNull"
    and "\<not> backfill_possible (flowRepo s) (repeat j) (property fv ''id'')"
  shows "\<exists>m' s'. migrateJob i j n s = (Inr (n + 1), s') \<and> stored i j m' s s'
         \<and> property m' ''schemaVersion'' = Some (JNum 2)
         \<and> property m' ''flowVersionId'' = property fv ''id''"
proof -
  have nn: "m \<noteq> JNull" using assms(3) by auto
  let ?l = "\<lparr>job = j, modifiedJobData = m, migratedJobs = n\<rparr>"
  from migrate_v1_to_v2_run [of ?l fv i s] assms(2-4)
  obtain m2 where r1: "migrate_v1_to_v2 i ?l s =
           (Inr \<lparr>job = j\<lparr>data := Some m2\<rparr>, modifiedJobData = m2, migratedJobs = Suc n\<rparr>,
            s\<lparr>scheduledJobQueue := (scheduledJobQueue s)[i := Some (j\<lparr>data := Some m2\<rparr>)]\<rparr>)"
    and p: "property m2 ''schemaVersion'' = Some (JNum 2)"
      "property m2 ''flowVersionId'' = property fv ''id''"
    by auto
  let ?l1 = "\<lparr>job = j\<lparr>data := Some m2\<rparr>, modifiedJobData = m2, migratedJobs = Suc n\<rparr>"
  let ?s1 = "s\<lparr>scheduledJobQueue := (scheduledJobQueue s)[i := Some (j\<lparr>data := Some m2\<rparr>)]\<rparr>"
  have r2: "migrate_v2_to_v3 i ?l1 ?s1 = (Inr ?l1, ?s1)"
    using assms(5) p by (intro migrate_v2_to_v3_stuck) simp_all
  have r3: "migrate_v3_to_v4 i ?l1 ?s1 = (Inr ?l1, ?s1)"
    using p by (intro migrate_v3_to_v4_skip) simp
  have run: "migrateJob i j n s = (Inr (Suc n), ?s1)"
    by (simp add: migrateJob_unfold [OF assms(1) nn] r1 r2 r3)
  have st: "stored i j m2 s ?s1"
    by (simp add: stored_def frame_def)
  show ?thesis using run st p by auto
qed

lemma migrateJob_v1_run:
  assumes "data j = Some m"
    and "property m ''schemaVersion'' = None \<or> property m ''schemaVersion'' = Some (JNum 1)"
    and "property m ''flowVersion'' = Some fv" and "fv \<noteq> JNull"
    and "backfill_possible (flowRepo s) (repeat j) (property fv ''id'')"
  shows "\<exists>m' s'. migrateJob i j n s = (Inr (n + 3), s') \<and> stored i j m' s s'
         \<and> property m' ''schemaVersion'' = Some (JNum 4)
         \<and> property m' ''executionType'' = None
         \<and> property m' ''jobType'' = Some RepeatableJobType_EXECUTE_TRIGGER"
proof -
  have nn: "m \<noteq> JNull" using assms(3) by auto
  let ?l = "\<lparr>job = j, modifiedJobData = m, migratedJobs = n\<rparr>"
  from migrate_v1_to_v2_run [of ?l fv i s] assms(2-4)
  obtain m2 where r1: "migrate_v1_to_v2 i ?l s =
           (Inr \<lparr>job = j\<lparr>data := Some m2\<rparr>, modifiedJobData = m2, migratedJobs = Suc n\<rparr>,
            s\<lparr>scheduledJobQueue := (scheduledJobQueue s)[i := Some (j\<lparr>data := Some m2\<rparr>)]\<rparr>)"
    and p2: "property m2 ''schemaVersion'' = Some (JNum 2)"
      "property m2 ''flowVersionId'' = property fv ''id''"
      "property m2 ''executionType'' = Some ExecutionType_BEGIN"
    by auto
  from p2(1) obtain kvs where obj: "m2 = JObj kvs" using property_Some_obj by blast
  let ?l1 = "\<lparr>job = j\<lparr>data := Some m2\<rparr>, modifiedJobData = m2, migratedJobs = Suc n\<rparr>"
  let ?s1 = "s\<lparr>scheduledJobQueue := (scheduledJobQueue s)[i := Some (j\<lparr>data := Some m2\<rparr>)]\<rparr>"
  let ?m3 = "assign m2 ''schemaVersion'' (Some (JNum 3))"
  let ?l2 = "\<lparr>job = j\<lparr>data := Some ?m3\<rparr>, modifiedJobData = ?m3, migratedJobs = Suc (Suc n)\<rparr>"
  have b: "backfill_possible (flowRepo ?s1) (repeat (job ?l1)) (property (modifiedJobData ?l1) ''flowVersionId'')"
    using assms(5) p2(2) by simp
  from migrate_v2_to_v3_run [of ?l1 ?s1 i, OF _ _ b] p2(1)
  obtain s2 where r2: "migrate_v2_to_v3 i ?l1 ?s1 =
        (Inr ?l2, s2\<lparr>scheduledJobQueue := (scheduledJobQueue ?s1)[i := Some (j\<lparr>data := Some ?m3\<rparr>)]\<rparr>)"
    and f: "frame ?s1 s2" and q: "scheduledJobQueue s2 = scheduledJobQueue ?s1"
    by auto
  let ?s2 = "s2\<lparr>scheduledJobQueue := (scheduledJobQueue ?s1)[i := Some (j\<lparr>data := Some ?m3\<rparr>)]\<rparr>"
  have v3: "property ?m3 ''schemaVersion'' = Some (JNum 3)"
    and e3: "property ?m3 ''executionType'' = Some ExecutionType_BEGIN"
    using p2(3) by (simp_all add: obj update_conv')
  from migrate_v3_to_v4_run [of ?l2 i ?s2] v3 e3
  obtain m' where r3: "migrate_v3_to_v4 i ?l2 ?s2 =
           (Inr \<lparr>job = j\<lparr>data := Some m'\<rparr>, modifiedJobData = m', migratedJobs = Suc (Suc (Suc n))\<rparr>,
            ?s2\<lparr>scheduledJobQueue := (scheduledJobQueue ?s2)[i := Some (j\<lparr>data := Some m'\<rparr>)]\<rparr>)"
    and p: "property m' ''schemaVersion'' = Some (JNum 4)"
      "property m' ''executionType'' = None"
      "property m' ''jobType'' = Some RepeatableJobType_EXECUTE_TRIGGER"
    by auto
  let ?s3 = "?s2\<lparr>scheduledJobQueue := (scheduledJobQueue ?s2)[i := Some (j\<lparr>data := Some m'\<rparr>)]\<rparr>"
  have run: "migrateJob i j n s = (Inr (Suc (Suc (Suc n))), ?s3)"
    by (simp only: migrateJob_unfold [OF assms(1) nn] r1 r2 r3 prod.case sum.case locals.simps)
  have st: "stored i j m' s ?s3"
    using f by (simp add: stored_def frame_def)
  show ?thesis using run st p by auto
qed



lemma stable_stored:
  "property m' ''schemaVersion'' = Some (JNum 4) \<Longrightarrow> stable flows (j\<lparr>data := Some m'\<rparr>)"
  by (simp add: stable_def)

lemma casesI:
  "r = Inr (n + k) \<Longrightarrow> 0 < k \<Longrightarrow> stored i j m' s s' \<Longrightarrow>
   stable (flowRepo s) (j\<lparr>data := Some m'\<rparr>) \<Longrightarrow>
     (\<exists>e. r = Inl e \<and> s' = s \<and> raising e j)
       \<or> (r = Inr n \<and> s' = s \<and> stable (flowRepo s) j)
       \<or> (\<exists>m' k. r = Inr (n + k) \<and> 0 < k \<and> stored i j m' s s'
             \<and> stable (flowRepo s) (j\<lparr>data := Some m'\<rparr>))"
  by blast

text \<open>What one iteration does, in three cases.\<close>

lemma migrateJob_cases:
  assumes "migrateJob i j n s = (r, s')"
  shows "(\<exists>e. r = Inl e \<and> s' = s \<and> raising e j)
       \<or> (r = Inr n \<and> s' = s \<and> stable (flowRepo s) j)
       \<or> (\<exists>m' k. r = Inr (n + k) \<and> 0 < k \<and> stored i j m' s s'
             \<and> stable (flowRepo s) (j\<lparr>data := Some m'\<rparr>))"
proof (cases "isNil (data j)")
  case True
  from migrateJob_no_data [OF True, of i n s]
  obtain e where e: "migrateJob i j n s = (Inl e, s)" "raising e j"
    unfolding raising_def by blast
  with assms have "r = Inl e" "s' = s" by simp_all
  with e(2) show ?thesis by blast
next
  case False
  then obtain m where m: "data j = Some m" and nn: "m \<noteq> JNull"
    unfolding not_isNil_iff by blast
  let ?v = "property m ''schemaVersion''"
  consider (v1) "?v = None \<or> ?v = Some (JNum 1)"
    | (v2) "?v = Some (JNum 2)"
    | (v3) "?v = Some (JNum 3)"
    | (other) "?v \<noteq> None" "?v \<noteq> Some (JNum 1)" "?v \<noteq> Some (JNum 2)" "?v \<noteq> Some (JNum 3)"
    by blast
  then show ?thesis
  proof cases
    case v1
    show ?thesis
    proof (cases "isNil (property m ''flowVersion'')")
      case True
      have all: "\<And>i n t. migrateJob i j n t = (Inl TypeError, t)"
        using migrateJob_raise [OF m nn v1 True] .
      then have "raising TypeError j" unfolding raising_def by blast
      moreover from all [of i n s] assms have "r = Inl TypeError" "s' = s" by simp_all
      ultimately show ?thesis by blast
    next
      case False
      then obtain fv where fv: "property m ''flowVersion'' = Some fv" "fv \<noteq> JNull"
        unfolding not_isNil_iff by blast
      show ?thesis
      proof (cases "backfill_possible (flowRepo s) (repeat j) (property fv ''id'')")
        case True
        from migrateJob_v1_run [OF m v1 fv True, of i n]
        obtain m' t where run: "migrateJob i j n s = (Inr (n + 3), t)" and st: "stored i j m' s t"
          and v: "property m' ''schemaVersion'' = Some (JNum 4)" by blast
        from run assms have eq: "r = Inr (n + 3)" "t = s'" by simp_all
        show ?thesis
          using eq(1) st stable_stored [OF v] unfolding eq(2) by (rule casesI [where k = 3, OF _ zero_less_numeral])
      next
        case False
        from migrateJob_v1_stuck [OF m v1 fv False, of i n]
        obtain m' t where run: "migrateJob i j n s = (Inr (n + 1), t)" and st: "stored i j m' s t"
          and v: "property m' ''schemaVersion'' = Some (JNum 2)"
            "property m' ''flowVersionId'' = property fv ''id''" by blast
        from run assms have eq: "r = Inr (n + 1)" "t = s'" by simp_all
        have stb: "stable (flowRepo s) (j\<lparr>data := Some m'\<rparr>)"
          using v False by (simp add: stable_def)
        show ?thesis
          using eq(1) st stb unfolding eq(2) by (rule casesI [where k = 1, OF _ zero_less_one])
      qed
    qed
  next
    case v2
    show ?thesis
    proof (cases "backfill_possible (flowRepo s) (repeat j) (property m ''flowVersionId'')")
      case True
      from migrateJob_v2_run [OF m v2 True, of i n]
      obtain m' t where run: "migrateJob i j n s = (Inr (n + 2), t)" and st: "stored i j m' s t"
        and v: "property m' ''schemaVersion'' = Some (JNum 4)" by blast
      from run assms have eq: "r = Inr (n + 2)" "t = s'" by simp_all
      show ?thesis
        using eq(1) st stable_stored [OF v] unfolding eq(2) by (rule casesI [where k = 2, OF _ zero_less_numeral])
    next
      case False
      have "stable (flowRepo s) j" using m v2 False by (simp add: stable_def)
      moreover from migrateJob_v2_stuck [OF m v2 False, of i n] assms have "r = Inr n" "s' = s"
        by simp_all
      ultimately show ?thesis by blast
    qed
  next
    case v3
    from migrateJob_v3 [OF m v3, of i n s]
    obtain m' t where run: "migrateJob i j n s = (Inr (n + 1), t)" and st: "stored i j m' s t"
      and v: "property m' ''schemaVersion'' = Some (JNum 4)" by blast
    from run assms have eq: "r = Inr (n + 1)" "t = s'" by simp_all
    show ?thesis
      using eq(1) st stable_stored [OF v] unfolding eq(2) by (rule casesI [where k = 1, OF _ zero_less_one])
  next
    case other
    have "stable (flowRepo s) j" using m other by (simp add: stable_def)
    moreover from migrateJob_other [OF m other, of i n s] assms have "r = Inr n" "s' = s"
      by simp_all
    ultimately show ?thesis by blast
  qed
qed

section \<open>The loop\<close>

lemma jobsToMigrate_jobsFrom: "jobsToMigrate xs = jobsFrom 0 xs"
  by (simp add: jobsToMigrate_def jobsFrom_def)

lemma jobsFrom_Nil: "jobsFrom k [] = []"
  by (simp add: jobsFrom_def List.map_filter_simps)

lemma jobsFrom_Cons:
  "jobsFrom k (x # xs) =
     (case x of
        None \<Rightarrow> jobsFrom (Suc k) xs
      | Some j \<Rightarrow> if jobDataSchemaVersionIsNotLatest x then (k, j) # jobsFrom (Suc k) xs
                  else jobsFrom (Suc k) xs)"
proof -
  have "[k..<k + length (x # xs)] = k # [Suc k..<Suc k + length xs]"
    by (subst upt_rec) simp
  then show ?thesis
    by (simp add: jobsFrom_def List.map_filter_simps jobDataSchemaVersionIsNotLatest_def
          split: option.splits)
qed

lemma not_latest_Some:
  "jobDataSchemaVersionIsNotLatest x \<Longrightarrow> \<exists>j. x = Some j"
  by (cases x) (simp_all add: jobDataSchemaVersionIsNotLatest_def)

lemma processed_skip: "\<not> jobDataSchemaVersionIsNotLatest x \<Longrightarrow> processed pv x x"
  by (simp add: processed_def)

lemma interrupted_Cons:
  "interrupted pv e xs ys \<Longrightarrow> processed pv x y \<Longrightarrow> interrupted pv e (x # xs) (y # ys)"
proof -
  assume i: "interrupted pv e xs ys" and p: "processed pv x y"
  from i obtain xs1 j xs2 ys1 where d: "xs = xs1 @ Some j # xs2" "ys = ys1 @ Some j # xs2"
      "list_all2 (processed pv) xs1 ys1" "jobDataSchemaVersionIsNotLatest (Some j)" "raising e j"
    unfolding interrupted_def by blast
  have "x # xs = (x # xs1) @ Some j # xs2" "y # ys = (y # ys1) @ Some j # xs2"
    "list_all2 (processed pv) (x # xs1) (y # ys1)"
    using d p by simp_all
  with d(4,5) show ?thesis unfolding interrupted_def by blast
qed

lemma migrateJob_step:
  assumes run: "migrateJob (length pre) j n s = (Inr n1, s1)"
    and q: "scheduledJobQueue s = pre @ Some j # xs"
  shows "frame s s1 \<and> (\<exists>y. scheduledJobQueue s1 = pre @ y # xs)"
proof -
  from migrateJob_cases [OF run]
  consider "s1 = s" | m' where "stored (length pre) j m' s s1" by blast
  then show ?thesis
  proof cases
    case 1
    then show ?thesis using q by (simp add: frame_refl)
  next
    case 2
    then show ?thesis using q by (simp add: stored_def)
  qed
qed

lemma migrateJobs_trace:
  assumes "scheduledJobQueue s = pre @ xs"
    and "migrateJobs (jobsFrom (length pre) xs) n s = (r, s')"
  shows "frame s s' \<and> (\<exists>ys. scheduledJobQueue s' = pre @ ys
          \<and> (case r of
                Inr n' \<Rightarrow> list_all2 (processed (map publishedVersionId (flowRepo s))) xs ys
              | Inl e \<Rightarrow> interrupted (map publishedVersionId (flowRepo s)) e xs ys))"
  using assms
proof (induction xs arbitrary: pre n s)
  case Nil
  then show ?case by (auto simp: jobsFrom_Nil frame_refl)
next
  case (Cons x xs)
  let ?pv = "map publishedVersionId (flowRepo s)"
  have shift: "jobsFrom (Suc (length pre)) xs = jobsFrom (length (pre @ [x'])) xs" for x'
    by simp
  show ?case
  proof (cases "jobDataSchemaVersionIsNotLatest x")
    case False
    have q: "scheduledJobQueue s = (pre @ [x]) @ xs" using Cons.prems(1) by simp
    have run: "migrateJobs (jobsFrom (length (pre @ [x])) xs) n s = (r, s')"
      using Cons.prems(2) False by (simp add: jobsFrom_Cons split: option.splits)
    from Cons.IH [OF q run]
    obtain ys where f: "frame s s'" and ys: "scheduledJobQueue s' = (pre @ [x]) @ ys"
      and c: "case r of Inr n' \<Rightarrow> list_all2 (processed ?pv) xs ys
                | Inl e \<Rightarrow> interrupted ?pv e xs ys"
      by blast
    have "case r of Inr n' \<Rightarrow> list_all2 (processed ?pv) (x # xs) (x # ys)
                | Inl e \<Rightarrow> interrupted ?pv e (x # xs) (x # ys)"
      using c processed_skip [OF False, of ?pv]
      by (auto split: sum.splits intro: interrupted_Cons)
    moreover have "scheduledJobQueue s' = pre @ x # ys" using ys by simp
    ultimately show ?thesis using f by blast
  next
    case True
    then obtain j where x: "x = Some j" using not_latest_Some by blast
    have loop: "migrateJobs ((length pre, j) # jobsFrom (Suc (length pre)) xs) n s = (r, s')"
      using Cons.prems(2) True by (simp add: jobsFrom_Cons x)
    obtain r1 s1 where r1: "migrateJob (length pre) j n s = (r1, s1)"
      by (cases "migrateJob (length pre) j n s")
    show ?thesis
    proof (cases r1)
      case (Inl e)
      from migrateJob_cases [OF r1] Inl have s1: "s1 = s" and ra: "raising e j" by auto
      from loop r1 Inl s1 have res: "r = Inl e" "s' = s" by simp_all
      have "interrupted ?pv e (x # xs) (x # xs)"
        unfolding interrupted_def x
        using True ra x by (intro exI [of _ "[]"]) auto
      then show ?thesis using res Cons.prems(1) by (auto simp: frame_refl)
    next
      case (Inr n1)
      from migrateJob_step [OF r1 [unfolded Inr] Cons.prems(1) [unfolded x]]
      obtain y where f1: "frame s s1" and q1: "scheduledJobQueue s1 = pre @ y # xs" by blast
      have q: "scheduledJobQueue s1 = (pre @ [y]) @ xs" using q1 by simp
      have run: "migrateJobs (jobsFrom (length (pre @ [y])) xs) n1 s1 = (r, s')"
        using loop r1 Inr by simp
      have pv: "map publishedVersionId (flowRepo s1) = ?pv" using f1 by (simp add: frame_def)
      from Cons.IH [OF q run]
      obtain ys where f: "frame s1 s'" and ys: "scheduledJobQueue s' = (pre @ [y]) @ ys"
        and c: "case r of Inr n' \<Rightarrow> list_all2 (processed ?pv) xs ys
                  | Inl e \<Rightarrow> interrupted ?pv e xs ys"
        unfolding pv by blast
      have p: "processed ?pv x y"
        unfolding processed_def
        using True x r1 Inr q1 Cons.prems(1)
        by (intro disjI2 exI [of _ j] exI [of _ "length pre"] exI [of _ n] exI [of _ s]
              exI [of _ n1] exI [of _ s1]) simp
      have "case r of Inr n' \<Rightarrow> list_all2 (processed ?pv) (x # xs) (y # ys)
                  | Inl e \<Rightarrow> interrupted ?pv e (x # xs) (y # ys)"
        using c p by (auto split: sum.splits intro: interrupted_Cons)
      moreover have "scheduledJobQueue s' = pre @ y # ys" using ys by simp
      ultimately show ?thesis using frame_trans [OF f1 f] by blast
    qed
  qed
qed

section \<open>A second pass\<close>









section \<open>What a pass does to a job\<close>

lemma not_latest_v1:
  assumes "data j = Some m" "m \<noteq> JNull"
    and "property m ''schemaVersion'' = None \<or> property m ''schemaVersion'' = Some (JNum 1)"
  shows "jobDataSchemaVersionIsNotLatest (Some j)"
  using assms by (auto simp: jobDataSchemaVersionIsNotLatest_def LATEST_JOB_DATA_SCHEMA_VERSION_def)

text \<open>A pass that is not interrupted has run the iteration of every job it lists.\<close>

lemma init_completes:
  assumes "init s = (Inr (), s')"
  shows "list_all2 (processed (map publishedVersionId (flowRepo s)))
           (scheduledJobQueue s) (scheduledJobQueue s')"
proof -
  let ?s0 = "s\<lparr>locks := insert ''jobs_lock'' (locks s)\<rparr>"
  obtain ra sa where loop: "migrateJobs (jobsToMigrate (scheduledJobQueue ?s0)) 0 ?s0 = (ra, sa)"
    by (cases "migrateJobs (jobsToMigrate (scheduledJobQueue ?s0)) 0 ?s0")
  from assms loop obtain n where ra: "ra = Inr n"
    and s': "s' = release ''jobs_lock'' (sa\<lparr>log := log sa @ [MigratedJobs n]\<rparr>)"
    by (auto simp: init_def migrateScheduledJobs_def acquireLock_def split: if_splits sum.splits)
  have q: "scheduledJobQueue ?s0 = [] @ scheduledJobQueue ?s0" by simp
  from migrateJobs_trace [OF q, of 0 ra sa] loop ra
  have "list_all2 (processed (map publishedVersionId (flowRepo s)))
           (scheduledJobQueue s) (scheduledJobQueue sa)"
    by (simp add: jobsToMigrate_jobsFrom)
  then show ?thesis by (simp add: s' release_def)
qed

text \<open>In any pass, a job either keeps its record or has had its iteration run.\<close>

lemma init_any:
  assumes "init s = (r, s')" and "i < length (scheduledJobQueue s)"
  shows "scheduledJobQueue s' ! i = scheduledJobQueue s ! i
       \<or> processed (map publishedVersionId (flowRepo s))
            (scheduledJobQueue s ! i) (scheduledJobQueue s' ! i)"
proof (cases "''jobs_lock'' \<in> locks s")
  case True
  then show ?thesis using assms(1)
    by (simp add: init_def migrateScheduledJobs_def acquireLock_def)
next
  case False
  let ?pv = "map publishedVersionId (flowRepo s)"
  let ?s0 = "s\<lparr>locks := insert ''jobs_lock'' (locks s)\<rparr>"
  obtain ra sa where loop: "migrateJobs (jobsToMigrate (scheduledJobQueue ?s0)) 0 ?s0 = (ra, sa)"
    by (cases "migrateJobs (jobsToMigrate (scheduledJobQueue ?s0)) 0 ?s0")
  have qs: "scheduledJobQueue s' = scheduledJobQueue sa"
    using assms(1) False loop
    by (auto simp: init_def migrateScheduledJobs_def acquireLock_def release_def split: sum.splits)
  have q: "scheduledJobQueue ?s0 = [] @ scheduledJobQueue ?s0" by simp
  from migrateJobs_trace [OF q, of 0 ra sa] loop
  have c: "case ra of Inr n' \<Rightarrow> list_all2 (processed ?pv) (scheduledJobQueue s) (scheduledJobQueue sa)
               | Inl e \<Rightarrow> interrupted ?pv e (scheduledJobQueue s) (scheduledJobQueue sa)"
    by (simp add: jobsToMigrate_jobsFrom split: sum.splits)
  show ?thesis
  proof (cases ra)
    case (Inr n)
    with c have "list_all2 (processed ?pv) (scheduledJobQueue s) (scheduledJobQueue sa)" by simp
    from list_all2_nthD [OF this assms(2)] show ?thesis by (simp add: qs)
  next
    case (Inl e)
    with c obtain xs1 j xs2 ys1 where d: "scheduledJobQueue s = xs1 @ Some j # xs2"
      "scheduledJobQueue sa = ys1 @ Some j # xs2" "list_all2 (processed ?pv) xs1 ys1"
      unfolding interrupted_def by auto
    have len: "length ys1 = length xs1" using d(3) by (simp add: list_all2_lengthD)
    show ?thesis
    proof (cases "i < length xs1")
      case True
      from list_all2_nthD [OF d(3) True] show ?thesis
        using True len by (simp add: qs d(1,2) nth_append)
    next
      case False
      then show ?thesis using len by (simp add: qs d(1,2) nth_append)
    qed
  qed
qed

lemma processed_v1:
  assumes p: "processed (map publishedVersionId flows) (Some j) y"
    and m: "data j = Some m" and nn: "m \<noteq> JNull"
    and v: "property m ''schemaVersion'' = None \<or> property m ''schemaVersion'' = Some (JNum 1)"
  shows "\<exists>fv m'. property m ''flowVersion'' = Some fv \<and> fv \<noteq> JNull
           \<and> y = Some (j\<lparr>data := Some m'\<rparr>)
           \<and> (if backfill_possible flows (repeat j) (property fv ''id'')
               then property m' ''schemaVersion'' = Some (JNum 4)
                    \<and> property m' ''executionType'' = None
                    \<and> property m' ''jobType'' = Some RepeatableJobType_EXECUTE_TRIGGER
               else property m' ''schemaVersion'' = Some (JNum 2))"
proof -
  have nl: "jobDataSchemaVersionIsNotLatest (Some j)"
    using not_latest_v1 [OF m nn v] .
  with p obtain i n t n' t' where
        pv: "map publishedVersionId (flowRepo t) = map publishedVersionId flows"
    and i: "i < length (scheduledJobQueue t)"
    and run: "migrateJob i j n t = (Inr n', t')" and y: "scheduledJobQueue t' ! i = y"
    unfolding processed_def by auto
  have "\<not> isNil (property m ''flowVersion'')"
    using migrateJob_raise [OF m nn v, of i n t] run by auto
  then obtain fv where fv: "property m ''flowVersion'' = Some fv" "fv \<noteq> JNull"
    unfolding not_isNil_iff by blast
  have b: "backfill_possible (flowRepo t) (repeat j) (property fv ''id'')
       = backfill_possible flows (repeat j) (property fv ''id'')"
    using backfill_possible_cong [OF pv] .
  show ?thesis
  proof (cases "backfill_possible flows (repeat j) (property fv ''id'')")
    case True
    from migrateJob_v1_run [OF m v fv, of t i n] True b run
    obtain m' where "stored i j m' t t'" "property m' ''schemaVersion'' = Some (JNum 4)"
      "property m' ''executionType'' = None"
      "property m' ''jobType'' = Some RepeatableJobType_EXECUTE_TRIGGER"
      by auto
    moreover from this(1) i y have "y = Some (j\<lparr>data := Some m'\<rparr>)" by (simp add: stored_def)
    ultimately show ?thesis using fv True by auto
  next
    case False
    from migrateJob_v1_stuck [OF m v fv, of t i n] False b run
    obtain m' where "stored i j m' t t'" "property m' ''schemaVersion'' = Some (JNum 2)"
      by auto
    moreover from this(1) i y have "y = Some (j\<lparr>data := Some m'\<rparr>)" by (simp add: stored_def)
    ultimately show ?thesis using fv False by auto
  qed
qed

lemma backfill_possible_iff:
  "backfill_possible flows opts key \<longleftrightarrow>
     (\<exists>ro t p. opts = Some ro \<and> tz ro = Some t \<and> pattern ro = Some p)
     \<and> (\<exists>v. key = Some (JStr v) \<and> Some v \<in> publishedVersionId ` set flows)"
  by (auto simp: backfill_possible_def findOneBy_None_iff)

text \<open>C1, as amended: when a pass completes, every job whose payload is not \<open>null\<close>
  and is at schema version 1 or has no schema version holds a \<open>flowVersion\<close> and has
  been rewritten.
  When its repeat options have a time zone and a pattern and some flow has published
  the flow version of its payload, it is at schema version 4 with \<open>jobType\<close>
  \<open>EXECUTE_TRIGGER\<close> and no \<open>executionType\<close>, whatever \<open>executionType\<close> its payload
  held; otherwise (a repeat option is missing, or no flow has published that flow
  version) it is left at schema version 2.\<close>

theorem C1_completed_pass:
  assumes "init s = (Inr (), s')"
    and "i < length (scheduledJobQueue s)" and "scheduledJobQueue s ! i = Some j"
    and "data j = Some m" and "m \<noteq> JNull"
    and "property m ''schemaVersion'' = None \<or> property m ''schemaVersion'' = Some (JNum 1)"
  shows "\<exists>fv m'. property m ''flowVersion'' = Some fv \<and> fv \<noteq> JNull
          \<and> scheduledJobQueue s' ! i = Some (j\<lparr>data := Some m'\<rparr>)
          \<and> (if (\<exists>ro t p. repeat j = Some ro \<and> tz ro = Some t \<and> pattern ro = Some p)
                 \<and> (\<exists>v. property fv ''id'' = Some (JStr v)
                        \<and> Some v \<in> publishedVersionId ` set (flowRepo s))
              then property m' ''schemaVersion'' = Some (JNum 4)
                 \<and> property m' ''jobType'' = Some RepeatableJobType_EXECUTE_TRIGGER
                 \<and> property m' ''executionType'' = None
              else property m' ''schemaVersion'' = Some (JNum 2))"
proof -
  from list_all2_nthD [OF init_completes [OF assms(1)] assms(2)]
  have p: "processed (map publishedVersionId (flowRepo s)) (Some j) (scheduledJobQueue s' ! i)"
    by (simp add: assms(3))
  from processed_v1 [OF p assms(4) assms(5) assms(6)]
  obtain fv m' where f: "property m ''flowVersion'' = Some fv" "fv \<noteq> JNull"
      "scheduledJobQueue s' ! i = Some (j\<lparr>data := Some m'\<rparr>)"
    and c: "if backfill_possible (flowRepo s) (repeat j) (property fv ''id'')
               then property m' ''schemaVersion'' = Some (JNum 4)
                    \<and> property m' ''executionType'' = None
                    \<and> property m' ''jobType'' = Some RepeatableJobType_EXECUTE_TRIGGER
               else property m' ''schemaVersion'' = Some (JNum 2)"
    by blast
  show ?thesis
  proof (cases "backfill_possible (flowRepo s) (repeat j) (property fv ''id'')")
    case True
    with c f show ?thesis
      unfolding backfill_possible_iff by (intro exI [of _ fv] exI [of _ m']) simp
  next
    case False
    with c f show ?thesis
      unfolding backfill_possible_iff by (intro exI [of _ fv] exI [of _ m']) simp
  qed
qed

text \<open>C1, witness: \<open>job_v1\<close> reaches version 4; \<open>job_v1_unpublished\<close>, whose flow
  version no flow has published, and \<open>job_v1_no_repeat\<close>, without repeat options, are
  left at version 2.\<close>

theorem C1_completed_pass_witness:
  "(\<exists>m'. scheduledJobQueue (snd (init (example_state
              [Some job_v1_unpublished, Some job_v1, Some job_v1_no_repeat]))) ! 1
            = Some (job_v1\<lparr>data := Some m'\<rparr>)
          \<and> property m' ''schemaVersion'' = Some (JNum 4)
          \<and> property m' ''jobType'' = Some RepeatableJobType_EXECUTE_TRIGGER
          \<and> property m' ''executionType'' = None)
   \<and> (\<exists>m'. scheduledJobQueue (snd (init (example_state
              [Some job_v1_unpublished, Some job_v1, Some job_v1_no_repeat]))) ! 0
            = Some (job_v1_unpublished\<lparr>data := Some m'\<rparr>)
          \<and> property m' ''schemaVersion'' = Some (JNum 2))
   \<and> (\<exists>m'. scheduledJobQueue (snd (init (example_state
              [Some job_v1_unpublished, Some job_v1, Some job_v1_no_repeat]))) ! 2
            = Some (job_v1_no_repeat\<lparr>data := Some m'\<rparr>)
          \<and> property m' ''schemaVersion'' = Some (JNum 2))
   \<and> queue_field (snd (init (example_state
              [Some job_v1_unpublished, Some job_v1, Some job_v1_no_repeat]))) ''schemaVersion''
       = [Some (JNum 2), Some (JNum 4), Some (JNum 2)]"
proof -
  let ?s = "example_state [Some job_v1_unpublished, Some job_v1, Some job_v1_no_repeat]"
  have "fst (init ?s) = Inr ()"
    by (simp add: example_defs job_v1_no_repeat_def enum_defs migration_defs)
  then have run: "init ?s = (Inr (), snd (init ?s))"
    by (metis prod.collapse)
  have a: "\<exists>m'. scheduledJobQueue (snd (init ?s)) ! 1 = Some (job_v1\<lparr>data := Some m'\<rparr>)
          \<and> property m' ''schemaVersion'' = Some (JNum 4)
          \<and> property m' ''jobType'' = Some RepeatableJobType_EXECUTE_TRIGGER
          \<and> property m' ''executionType'' = None"
    using C1_completed_pass [OF run, where i = 1 and j = job_v1
          and m = "JObj [(''flowVersion'', JObj [(''id'', JStr ''fv1''), (''flowId'', JStr ''f1'')]),
                         (''projectId'', JStr ''p1''),
                         (''triggerType'', JStr ''SCHEDULE''),
                         (''executionType'', JStr ''RESUME'')]"]
    by (simp add: example_defs)
  have b: "\<exists>m'. scheduledJobQueue (snd (init ?s)) ! 0 = Some (job_v1_unpublished\<lparr>data := Some m'\<rparr>)
          \<and> property m' ''schemaVersion'' = Some (JNum 2)"
    using C1_completed_pass [OF run, where i = 0 and j = job_v1_unpublished
          and m = "JObj [(''schemaVersion'', JNum 1),
                         (''flowVersion'', JObj [(''id'', JStr ''fv9''), (''flowId'', JStr ''f9'')]),
                         (''projectId'', JStr ''p1'')]"]
    by (simp add: example_defs)
  have c: "\<exists>m'. scheduledJobQueue (snd (init ?s)) ! 2 = Some (job_v1_no_repeat\<lparr>data := Some m'\<rparr>)
          \<and> property m' ''schemaVersion'' = Some (JNum 2)"
    using C1_completed_pass [OF run, where i = 2 and j = job_v1_no_repeat
          and m = "JObj [(''flowVersion'', JObj [(''id'', JStr ''fv1''), (''flowId'', JStr ''f1'')]),
                         (''projectId'', JStr ''p1'')]"]
    by (simp add: example_defs job_v1_no_repeat_def)
  have d: "queue_field (snd (init ?s)) ''schemaVersion''
       = [Some (JNum 2), Some (JNum 4), Some (JNum 2)]"
    by (simp add: queue_field_def data_field_def example_defs job_v1_no_repeat_def enum_defs
          migration_defs)
  show ?thesis using a b c d by blast
qed

text \<open>C1, counterexample: after a completed pass, the job at version 1 whose flow
  version no flow has published is at version 2, and the job without schema version
  whose \<open>executionType\<close> was \<open>RESUME\<close> has \<open>jobType\<close> \<open>EXECUTE_TRIGGER\<close>.\<close>

theorem C1_counterexample:
  "queue_field (example_state [Some job_v1_unpublished, Some job_v1]) ''schemaVersion''
     = [Some (JNum 1), None]
   \<and> queue_field (example_state [Some job_v1_unpublished, Some job_v1]) ''executionType''
     = [None, Some ExecutionType_RESUME]
   \<and> fst (init (example_state [Some job_v1_unpublished, Some job_v1])) = Inr ()
   \<and> queue_field (snd (init (example_state [Some job_v1_unpublished, Some job_v1]))) ''schemaVersion''
     = [Some (JNum 2), Some (JNum 4)]
   \<and> queue_field (snd (init (example_state [Some job_v1_unpublished, Some job_v1]))) ''jobType''
     = [None, Some RepeatableJobType_EXECUTE_TRIGGER]"
  by (simp add: queue_field_def data_field_def example_defs enum_defs migration_defs)

section \<open>Failures during a pass\<close>

lemma migrateJob_Inl:
  assumes run: "migrateJob i j n s = (Inl e, s')" and m: "data j = Some m" and nn: "m \<noteq> JNull"
  shows "e = TypeError \<and> s' = s
       \<and> (property m ''schemaVersion'' = None \<or> property m ''schemaVersion'' = Some (JNum 1))
       \<and> isNil (property m ''flowVersion'')"
proof -
  let ?v = "property m ''schemaVersion''"
  consider (v1) "?v = None \<or> ?v = Some (JNum 1)"
    | (v2) "?v = Some (JNum 2)"
    | (v3) "?v = Some (JNum 3)"
    | (other) "?v \<noteq> None" "?v \<noteq> Some (JNum 1)" "?v \<noteq> Some (JNum 2)" "?v \<noteq> Some (JNum 3)"
    by blast
  then show ?thesis
  proof cases
    case v1
    show ?thesis
    proof (cases "isNil (property m ''flowVersion'')")
      case True
      from migrateJob_raise [OF m nn v1 True, of i n s] run v1 True show ?thesis by simp
    next
      case False
      then obtain fv where fv: "property m ''flowVersion'' = Some fv" "fv \<noteq> JNull"
        unfolding not_isNil_iff by blast
      show ?thesis
      proof (cases "backfill_possible (flowRepo s) (repeat j) (property fv ''id'')")
        case True
        from migrateJob_v1_run [OF m v1 fv True, of i n] run show ?thesis by auto
      next
        case False
        from migrateJob_v1_stuck [OF m v1 fv False, of i n] run show ?thesis by auto
      qed
    qed
  next
    case v2
    show ?thesis
    proof (cases "backfill_possible (flowRepo s) (repeat j) (property m ''flowVersionId'')")
      case True
      from migrateJob_v2_run [OF m v2 True, of i n] run show ?thesis by auto
    next
      case False
      from migrateJob_v2_stuck [OF m v2 False, of i n] run show ?thesis by simp
    qed
  next
    case v3
    from migrateJob_v3 [OF m v3, of i n s] run show ?thesis by auto
  next
    case other
    from migrateJob_other [OF m other, of i n s] run show ?thesis by simp
  qed
qed

lemma raising_TypeError:
  assumes "jobDataSchemaVersionIsNotLatest (Some j)" and "raising e j"
  shows "e = TypeError"
proof -
  from assms(1) obtain m where m: "data j = Some m" and nn: "m \<noteq> JNull"
    by (auto simp: jobDataSchemaVersionIsNotLatest_def split: option.splits)
  from assms(2) have "migrateJob 0 j 0 s = (Inl e, s)" for s :: state
    by (simp add: raising_def)
  from migrateJob_Inl [OF this m nn] show ?thesis by simp
qed

lemma processed_raise:
  assumes "processed pv (Some j) y" and "data j = Some m" and "m \<noteq> JNull"
    and "property m ''schemaVersion'' = None \<or> property m ''schemaVersion'' = Some (JNum 1)"
    and "isNil (property m ''flowVersion'')"
  shows False
proof -
  have nl: "jobDataSchemaVersionIsNotLatest (Some j)"
    using not_latest_v1 [OF assms(2,3,4)] .
  with assms(1) obtain i n t n' t' where "migrateJob i j n t = (Inr n', t')"
    unfolding processed_def by auto
  with migrateJob_raise [OF assms(2,3,4,5), of i n t] show False by simp
qed

lemma processed_v2_stuck:
  assumes "processed (map publishedVersionId flows) (Some j) y" and "data j = Some m"
    and "property m ''schemaVersion'' = Some (JNum 2)"
    and "\<not> backfill_possible flows (repeat j) (property m ''flowVersionId'')"
  shows "y = Some j"
proof -
  from assms(1) consider "y = Some j"
    | i n t n' t' where "map publishedVersionId (flowRepo t) = map publishedVersionId flows"
        "scheduledJobQueue t ! i = Some j" "migrateJob i j n t = (Inr n', t')"
        "scheduledJobQueue t' ! i = y"
    unfolding processed_def by auto
  then show ?thesis
  proof cases
    case 1
    then show ?thesis .
  next
    case 2
    have "\<not> backfill_possible (flowRepo t) (repeat j) (property m ''flowVersionId'')"
      using assms(4) backfill_possible_cong [OF 2(1)] by simp
    from migrateJob_v2_stuck [OF assms(2,3) this, of i n] 2(3) have "t' = t" by simp
    with 2(2,4) show ?thesis by simp
  qed
qed

text \<open>C2, counterexample: the first job has no \<open>flowVersion\<close>; the pass raises
  \<open>TypeError\<close>, the second job stays at version 3 and no count is reported.\<close>

theorem C2_counterexample:
  "fst (init (example_state [Some job_no_flowVersion, Some job_v3])) = Inl TypeError
   \<and> queue_field (snd (init (example_state [Some job_no_flowVersion, Some job_v3]))) ''schemaVersion''
       = [None, Some (JNum 3)]
   \<and> log (snd (init (example_state [Some job_no_flowVersion, Some job_v3]))) = []"
  by (simp add: queue_field_def data_field_def example_defs enum_defs migration_defs)

text \<open>C8: on a queue of one job without schema version, the pass migrates that one job
  and reports 3, the number of steps it took.\<close>

theorem C8_counts_steps:
  "length (scheduledJobQueue (example_state [Some job_v1])) = 1
   \<and> fst (init (example_state [Some job_v1])) = Inr ()
   \<and> log (snd (init (example_state [Some job_v1]))) = [MigratedJobs 3]"
  by (simp add: example_defs enum_defs migration_defs)

text \<open>C2, as amended: a job at version 2 whose backfill does not succeed (a repeat
  option is missing, or no flow has published its flow version) is left as it is and
  the loop goes on with the remaining jobs, from the same state and counter; after the
  pass, whatever its outcome, that job is unchanged. An error raised by the iteration
  of a job (the step from version 1 on a payload without \<open>flowVersion\<close>) leaves the
  loop; when the queue holds such a job and the lock is free, \<open>init\<close> fails with
  \<open>TypeError\<close>, the lock is free again, no count is logged, and that job and all jobs
  after it are as they were.\<close>

theorem C2_failed_backfill_and_raise:
  "(data j = Some m \<and> property m ''schemaVersion'' = Some (JNum 2)
      \<and> ((\<forall>ro. repeat j = Some ro \<longrightarrow> tz ro = None \<or> pattern ro = None)
           \<or> findOneBy (flowRepo s) (property m ''flowVersionId'') = None)
     \<longrightarrow> migrateJobs ((i, j) # js) n s = migrateJobs js n s)
   \<and> (data j = Some m \<and> m \<noteq> JNull
      \<and> (property m ''schemaVersion'' = None \<or> property m ''schemaVersion'' = Some (JNum 1))
      \<and> isNil (property m ''flowVersion'')
     \<longrightarrow> migrateJobs ((i, j) # js) n s = (Inl TypeError, s))
   \<and> (init s = (r, s') \<and> i < length (scheduledJobQueue s) \<and> scheduledJobQueue s ! i = Some j
      \<and> data j = Some m \<and> property m ''schemaVersion'' = Some (JNum 2)
      \<and> ((\<forall>ro. repeat j = Some ro \<longrightarrow> tz ro = None \<or> pattern ro = None)
           \<or> findOneBy (flowRepo s) (property m ''flowVersionId'') = None)
     \<longrightarrow> scheduledJobQueue s' ! i = Some j)
   \<and> (''jobs_lock'' \<notin> locks s
      \<and> i < length (scheduledJobQueue s) \<and> scheduledJobQueue s ! i = Some j
      \<and> data j = Some m \<and> m \<noteq> JNull
      \<and> (property m ''schemaVersion'' = None \<or> property m ''schemaVersion'' = Some (JNum 1))
      \<and> isNil (property m ''flowVersion'')
     \<longrightarrow> (\<exists>t. init s = (Inl TypeError, t) \<and> locks t = locks s \<and> log t = log s
           \<and> length (scheduledJobQueue t) = length (scheduledJobQueue s)
           \<and> (\<forall>k. i \<le> k \<longrightarrow> scheduledJobQueue t ! k = scheduledJobQueue s ! k)))"
proof -
  have a: "migrateJobs ((i, j) # js) n s = migrateJobs js n s"
    if "data j = Some m \<and> property m ''schemaVersion'' = Some (JNum 2)
      \<and> ((\<forall>ro. repeat j = Some ro \<longrightarrow> tz ro = None \<or> pattern ro = None)
           \<or> findOneBy (flowRepo s) (property m ''flowVersionId'') = None)"
  proof -
    from that have "\<not> backfill_possible (flowRepo s) (repeat j) (property m ''flowVersionId'')"
      by (auto simp: backfill_possible_def)
    with that have "migrateJob i j n s = (Inr n, s)"
      using migrateJob_v2_stuck by blast
    then show ?thesis by simp
  qed
  have b: "migrateJobs ((i, j) # js) n s = (Inl TypeError, s)"
    if "data j = Some m \<and> m \<noteq> JNull
      \<and> (property m ''schemaVersion'' = None \<or> property m ''schemaVersion'' = Some (JNum 1))
      \<and> isNil (property m ''flowVersion'')"
  proof -
    from that have "migrateJob i j n s = (Inl TypeError, s)"
      using migrateJob_raise by blast
    then show ?thesis by simp
  qed
  have c: "scheduledJobQueue s' ! i = Some j"
    if "init s = (r, s') \<and> i < length (scheduledJobQueue s) \<and> scheduledJobQueue s ! i = Some j
      \<and> data j = Some m \<and> property m ''schemaVersion'' = Some (JNum 2)
      \<and> ((\<forall>ro. repeat j = Some ro \<longrightarrow> tz ro = None \<or> pattern ro = None)
           \<or> findOneBy (flowRepo s) (property m ''flowVersionId'') = None)"
  proof -
    from that have run: "init s = (r, s')" and i: "i < length (scheduledJobQueue s)"
      and x: "scheduledJobQueue s ! i = Some j" and m: "data j = Some m"
      and v: "property m ''schemaVersion'' = Some (JNum 2)" by simp_all
    from that have nb: "\<not> backfill_possible (flowRepo s) (repeat j) (property m ''flowVersionId'')"
      by (auto simp: backfill_possible_def)
    from init_any [OF run i] x
    consider "scheduledJobQueue s' ! i = Some j"
      | "processed (map publishedVersionId (flowRepo s)) (Some j) (scheduledJobQueue s' ! i)"
      by auto
    then show ?thesis
    proof cases
      case 1
      then show ?thesis .
    next
      case 2
      from processed_v2_stuck [OF 2 m v nb] show ?thesis .
    qed
  qed
  have d: "\<exists>t. init s = (Inl TypeError, t) \<and> locks t = locks s \<and> log t = log s
           \<and> length (scheduledJobQueue t) = length (scheduledJobQueue s)
           \<and> (\<forall>k. i \<le> k \<longrightarrow> scheduledJobQueue t ! k = scheduledJobQueue s ! k)"
    if h: "''jobs_lock'' \<notin> locks s
      \<and> i < length (scheduledJobQueue s) \<and> scheduledJobQueue s ! i = Some j
      \<and> data j = Some m \<and> m \<noteq> JNull
      \<and> (property m ''schemaVersion'' = None \<or> property m ''schemaVersion'' = Some (JNum 1))
      \<and> isNil (property m ''flowVersion'')"
  proof -
    from h have free: "''jobs_lock'' \<notin> locks s"
      and i: "i < length (scheduledJobQueue s)" and x: "scheduledJobQueue s ! i = Some j"
      and m: "data j = Some m" and nn: "m \<noteq> JNull"
      and v: "property m ''schemaVersion'' = None \<or> property m ''schemaVersion'' = Some (JNum 1)"
      and nil: "isNil (property m ''flowVersion'')"
      by simp_all
    let ?pv = "map publishedVersionId (flowRepo s)"
    let ?a = "s\<lparr>locks := insert ''jobs_lock'' (locks s)\<rparr>"
    obtain ra sa where loop: "migrateJobs (jobsToMigrate (scheduledJobQueue ?a)) 0 ?a = (ra, sa)"
      by (cases "migrateJobs (jobsToMigrate (scheduledJobQueue ?a)) 0 ?a")
    have q: "scheduledJobQueue ?a = [] @ scheduledJobQueue ?a" by simp
    from migrateJobs_trace [OF q, of 0 ra sa] loop
    have f: "frame ?a sa"
      and c: "case ra of
                Inr n' \<Rightarrow> list_all2 (processed ?pv) (scheduledJobQueue s) (scheduledJobQueue sa)
              | Inl e \<Rightarrow> interrupted ?pv e (scheduledJobQueue s) (scheduledJobQueue sa)"
      by (simp_all add: jobsToMigrate_jobsFrom split: sum.splits)
    from f have lk: "locks sa = insert ''jobs_lock'' (locks s)" and lg: "log sa = log s"
      by (simp_all add: frame_def)
    have "\<exists>e. ra = Inl e"
    proof (cases ra)
      case (Inr u)
      with c have "list_all2 (processed ?pv) (scheduledJobQueue s) (scheduledJobQueue sa)" by simp
      from list_all2_nthD [OF this i] have "processed ?pv (Some j) (scheduledJobQueue sa ! i)"
        by (simp add: x)
      from processed_raise [OF this m nn v nil] show ?thesis ..
    next
      case (Inl e)
      then show ?thesis by blast
    qed
    then obtain e where ra: "ra = Inl e" by blast
    with c obtain xs1 jb xs2 ys1 where d: "scheduledJobQueue s = xs1 @ Some jb # xs2"
      "scheduledJobQueue sa = ys1 @ Some jb # xs2" "list_all2 (processed ?pv) xs1 ys1"
      "jobDataSchemaVersionIsNotLatest (Some jb)" "raising e jb"
      unfolding interrupted_def by auto
    have e: "e = TypeError" using raising_TypeError [OF d(4,5)] .
    have len: "length ys1 = length xs1" using d(3) by (simp add: list_all2_lengthD)
    have ge: "length xs1 \<le> i"
    proof (rule ccontr)
      assume "\<not> length xs1 \<le> i"
      then have lt: "i < length xs1" by simp
      from list_all2_nthD [OF d(3) lt] x have "processed ?pv (Some j) (ys1 ! i)"
        by (simp add: d(1) nth_append lt)
      from processed_raise [OF this m nn v nil] show False .
    qed
    have run: "init s = (Inl TypeError, release ''jobs_lock'' sa)"
      using free loop ra e by (simp add: init_def migrateScheduledJobs_def acquireLock_def)
    have 1: "locks (release ''jobs_lock'' sa) = locks s"
      using lk free by (simp add: release_def)
    have 2: "log (release ''jobs_lock'' sa) = log s"
      using lg by (simp add: release_def)
    have 3: "scheduledJobQueue (release ''jobs_lock'' sa) = scheduledJobQueue sa"
      by (simp add: release_def)
    have 4: "length (scheduledJobQueue sa) = length (scheduledJobQueue s)"
      using len by (simp add: d(1,2))
    have 5: "\<forall>k. i \<le> k \<longrightarrow> scheduledJobQueue sa ! k = scheduledJobQueue s ! k"
      using ge len by (simp add: d(1,2) nth_append)
    show ?thesis using run 1 2 4 5 unfolding 3 [symmetric] by blast
  qed
  from a b c d show ?thesis by blast
qed

text \<open>C2, witness: \<open>job_v2_unpublished\<close> is skipped by the loop and unchanged by the
  pass; \<open>job_no_flowVersion\<close> raises, and the pass over a queue that holds it fails,
  with the lock released and the job after it not migrated.\<close>

theorem C2_failed_backfill_and_raise_witness:
  "migrateJobs [(0, job_v2_unpublished), (1, job_v3)] 0
      (example_state [Some job_v2_unpublished, Some job_v3])
     = migrateJobs [(1, job_v3)] 0 (example_state [Some job_v2_unpublished, Some job_v3])
   \<and> migrateJobs [(0, job_no_flowVersion), (1, job_v3)] 0
      (example_state [Some job_no_flowVersion, Some job_v3])
     = (Inl TypeError, example_state [Some job_no_flowVersion, Some job_v3])
   \<and> scheduledJobQueue (snd (init (example_state [Some job_v2_unpublished, Some job_v3]))) ! 0
     = Some job_v2_unpublished
   \<and> (\<exists>t. init (example_state [Some job_v3, Some job_no_flowVersion, Some job_v1])
             = (Inl TypeError, t)
        \<and> locks t = {} \<and> log t = []
        \<and> scheduledJobQueue t ! 1 = Some job_no_flowVersion
        \<and> scheduledJobQueue t ! 2 = Some job_v1)"
proof -
  let ?m = "JObj [(''schemaVersion'', JNum 2), (''flowVersionId'', JStr ''fv9''),
                  (''executionType'', JStr ''BEGIN'')]"
  let ?s = "example_state [Some job_v2_unpublished, Some job_v3]"
  let ?t = "example_state [Some job_v3, Some job_no_flowVersion, Some job_v1]"
  have a: "data job_v2_unpublished = Some ?m \<and> property ?m ''schemaVersion'' = Some (JNum 2)
      \<and> ((\<forall>ro. repeat job_v2_unpublished = Some ro \<longrightarrow> tz ro = None \<or> pattern ro = None)
           \<or> findOneBy (flowRepo ?s) (property ?m ''flowVersionId'') = None)"
    by (simp add: job_v2_unpublished_def example_state_def findOneBy_def)
  have b: "data job_no_flowVersion = Some (JObj []) \<and> JObj [] \<noteq> JNull
      \<and> (property (JObj []) ''schemaVersion'' = None
          \<or> property (JObj []) ''schemaVersion'' = Some (JNum 1))
      \<and> isNil (property (JObj []) ''flowVersion'')"
    by (simp add: job_no_flowVersion_def)
  have c: "init ?s = (fst (init ?s), snd (init ?s)) \<and> 0 < length (scheduledJobQueue ?s)
      \<and> scheduledJobQueue ?s ! 0 = Some job_v2_unpublished
      \<and> data job_v2_unpublished = Some ?m \<and> property ?m ''schemaVersion'' = Some (JNum 2)
      \<and> ((\<forall>ro. repeat job_v2_unpublished = Some ro \<longrightarrow> tz ro = None \<or> pattern ro = None)
           \<or> findOneBy (flowRepo ?s) (property ?m ''flowVersionId'') = None)"
    using a by (simp add: example_state_def)
  have d: "''jobs_lock'' \<notin> locks ?t
      \<and> 1 < length (scheduledJobQueue ?t) \<and> scheduledJobQueue ?t ! 1 = Some job_no_flowVersion
      \<and> data job_no_flowVersion = Some (JObj []) \<and> JObj [] \<noteq> JNull
      \<and> (property (JObj []) ''schemaVersion'' = None
          \<or> property (JObj []) ''schemaVersion'' = Some (JNum 1))
      \<and> isNil (property (JObj []) ''flowVersion'')"
    using b by (simp add: example_state_def)
  have 1: "migrateJobs [(0, job_v2_unpublished), (1, job_v3)] 0 ?s = migrateJobs [(1, job_v3)] 0 ?s"
    using C2_failed_backfill_and_raise [of job_v2_unpublished ?m ?s 0 "[(1, job_v3)]" 0,
        THEN conjunct1, rule_format, OF a] .
  have 2: "migrateJobs [(0, job_no_flowVersion), (1, job_v3)] 0
      (example_state [Some job_no_flowVersion, Some job_v3])
     = (Inl TypeError, example_state [Some job_no_flowVersion, Some job_v3])"
    using C2_failed_backfill_and_raise [of job_no_flowVersion "JObj []"
        "example_state [Some job_no_flowVersion, Some job_v3]" 0 "[(1, job_v3)]" 0,
        THEN conjunct2, THEN conjunct1, rule_format, OF b] .
  have 3: "scheduledJobQueue (snd (init ?s)) ! 0 = Some job_v2_unpublished"
    using C2_failed_backfill_and_raise [of job_v2_unpublished ?m ?s 0 "[]" 0
        "fst (init ?s)" "snd (init ?s)",
        THEN conjunct2, THEN conjunct2, THEN conjunct1, rule_format, OF c] .
  from C2_failed_backfill_and_raise [of job_no_flowVersion "JObj []" ?t 1 "[]" 0,
        THEN conjunct2, THEN conjunct2, THEN conjunct2, rule_format, OF d]
  obtain t where t: "init ?t = (Inl TypeError, t)" "locks t = locks ?t" "log t = log ?t"
    "\<forall>k. 1 \<le> k \<longrightarrow> scheduledJobQueue t ! k = scheduledJobQueue ?t ! k"
    by blast
  from t(4) have "scheduledJobQueue t ! 1 = scheduledJobQueue ?t ! 1"
    "scheduledJobQueue t ! 2 = scheduledJobQueue ?t ! 2" by simp_all
  then have 4: "scheduledJobQueue t ! 1 = Some job_no_flowVersion" "scheduledJobQueue t ! 2 = Some job_v1"
    by (simp_all add: example_state_def)
  have 5: "locks t = {}" "log t = []" using t(2,3) by (simp_all add: example_state_def)
  show ?thesis using 1 2 3 t(1) 4 5 by blast
qed

text \<open>C10, as amended: on a payload without schema version or at version 1 that holds
  a \<open>flowVersion\<close>, the step from version 1 to 2 returns, whatever else the payload
  holds: the new payload is at version 2 with \<open>executionType\<close> \<open>BEGIN\<close> and
  \<open>environment\<close> \<open>PRODUCTION\<close>, it is stored on the job, and the counter grows by one.
  On a payload without \<open>flowVersion\<close> the step raises \<open>TypeError\<close> and changes nothing.
  A job without schema version or at version 1 that is at version 4 after a pass has
  \<open>jobType\<close> \<open>EXECUTE_TRIGGER\<close>, not \<open>DELAYED_FLOW\<close>.\<close>

theorem C10_v1_jobs_begin:
  "((property (modifiedJobData l) ''schemaVersion'' = None
       \<or> property (modifiedJobData l) ''schemaVersion'' = Some (JNum 1))
      \<and> \<not> isNil (property (modifiedJobData l) ''flowVersion'')
     \<longrightarrow> (\<exists>m'. migrate_v1_to_v2 i l s =
            (Inr \<lparr>job = (job l)\<lparr>data := Some m'\<rparr>, modifiedJobData = m',
                  migratedJobs = migratedJobs l + 1\<rparr>,
             s\<lparr>scheduledJobQueue :=
                 (scheduledJobQueue s)[i := Some ((job l)\<lparr>data := Some m'\<rparr>)]\<rparr>)
          \<and> property m' ''schemaVersion'' = Some (JNum 2)
          \<and> property m' ''executionType'' = Some ExecutionType_BEGIN
          \<and> property m' ''environment'' = Some RunEnvironment_PRODUCTION))
   \<and> ((property (modifiedJobData l) ''schemaVersion'' = None
       \<or> property (modifiedJobData l) ''schemaVersion'' = Some (JNum 1))
      \<and> isNil (property (modifiedJobData l) ''flowVersion'')
     \<longrightarrow> migrate_v1_to_v2 i l s = (Inl TypeError, s))
   \<and> (init s = (r, s') \<and> k < length (scheduledJobQueue s) \<and> scheduledJobQueue s ! k = Some j
      \<and> (data_field j ''schemaVersion'' = None \<or> data_field j ''schemaVersion'' = Some (JNum 1))
      \<and> scheduledJobQueue s' ! k = Some j' \<and> data_field j' ''schemaVersion'' = Some (JNum 4)
     \<longrightarrow> data_field j' ''jobType'' = Some RepeatableJobType_EXECUTE_TRIGGER
        \<and> data_field j' ''jobType'' \<noteq> Some RepeatableJobType_DELAYED_FLOW)"
proof -
  have a: "\<exists>m'. migrate_v1_to_v2 i l s =
            (Inr \<lparr>job = (job l)\<lparr>data := Some m'\<rparr>, modifiedJobData = m',
                  migratedJobs = migratedJobs l + 1\<rparr>,
             s\<lparr>scheduledJobQueue :=
                 (scheduledJobQueue s)[i := Some ((job l)\<lparr>data := Some m'\<rparr>)]\<rparr>)
          \<and> property m' ''schemaVersion'' = Some (JNum 2)
          \<and> property m' ''executionType'' = Some ExecutionType_BEGIN
          \<and> property m' ''environment'' = Some RunEnvironment_PRODUCTION"
    if "(property (modifiedJobData l) ''schemaVersion'' = None
       \<or> property (modifiedJobData l) ''schemaVersion'' = Some (JNum 1))
      \<and> \<not> isNil (property (modifiedJobData l) ''flowVersion'')"
  proof -
    from that obtain fv where v: "property (modifiedJobData l) ''schemaVersion'' = None
       \<or> property (modifiedJobData l) ''schemaVersion'' = Some (JNum 1)"
      and fv: "property (modifiedJobData l) ''flowVersion'' = Some fv" "fv \<noteq> JNull"
      unfolding not_isNil_iff by blast
    let ?m' = "object
        [(''schemaVersion'', Some (JNum 2)),
         (''flowVersionId'', property fv ''id''),
         (''flowId'', property fv ''flowId''),
         (''projectId'', property (modifiedJobData l) ''projectId''),
         (''environment'', Some RunEnvironment_PRODUCTION),
         (''executionType'', Some ExecutionType_BEGIN),
         (''triggerType'', property (modifiedJobData l) ''triggerType'')]"
    have run: "migrate_v1_to_v2 i l s =
           (Inr \<lparr>job = (job l)\<lparr>data := Some ?m'\<rparr>, modifiedJobData = ?m',
                 migratedJobs = migratedJobs l + 1\<rparr>,
            s\<lparr>scheduledJobQueue :=
                (scheduledJobQueue s)[i := Some ((job l)\<lparr>data := Some ?m'\<rparr>)]\<rparr>)"
      using v
      by (auto simp: migrate_v1_to_v2_def fv(1) member_not_nil [OF fv(2)] updateData_def Let_def)
    have fields: "property ?m' ''schemaVersion'' = Some (JNum 2)"
      "property ?m' ''executionType'' = Some ExecutionType_BEGIN"
      "property ?m' ''environment'' = Some RunEnvironment_PRODUCTION"
      by (simp_all add: property_object)
    show ?thesis using run fields by blast
  qed
  have b: "migrate_v1_to_v2 i l s = (Inl TypeError, s)"
    if "(property (modifiedJobData l) ''schemaVersion'' = None
       \<or> property (modifiedJobData l) ''schemaVersion'' = Some (JNum 1))
      \<and> isNil (property (modifiedJobData l) ''flowVersion'')"
    using that by (auto simp: migrate_v1_to_v2_def member_nil)
  have c: "data_field j' ''jobType'' = Some RepeatableJobType_EXECUTE_TRIGGER
        \<and> data_field j' ''jobType'' \<noteq> Some RepeatableJobType_DELAYED_FLOW"
    if a: "init s = (r, s') \<and> k < length (scheduledJobQueue s) \<and> scheduledJobQueue s ! k = Some j
      \<and> (data_field j ''schemaVersion'' = None \<or> data_field j ''schemaVersion'' = Some (JNum 1))
      \<and> scheduledJobQueue s' ! k = Some j' \<and> data_field j' ''schemaVersion'' = Some (JNum 4)"
  proof -
    from a have run: "init s = (r, s')" and k: "k < length (scheduledJobQueue s)"
      and x: "scheduledJobQueue s ! k = Some j"
      and v: "data_field j ''schemaVersion'' = None \<or> data_field j ''schemaVersion'' = Some (JNum 1)"
      and y: "scheduledJobQueue s' ! k = Some j'"
      and v': "data_field j' ''schemaVersion'' = Some (JNum 4)"
      by simp_all
    have changed: "j' \<noteq> j" using v v' by auto
    with init_any [OF run k] x y
    have p: "processed (map publishedVersionId (flowRepo s)) (Some j) (Some j')" by auto
    with changed have nl: "jobDataSchemaVersionIsNotLatest (Some j)"
      unfolding processed_def by auto
    then obtain m where m: "data j = Some m" and nn: "m \<noteq> JNull"
      by (auto simp: jobDataSchemaVersionIsNotLatest_def split: option.splits)
    from v m have vm: "property m ''schemaVersion'' = None \<or> property m ''schemaVersion'' = Some (JNum 1)"
      by (simp add: data_field_def)
    from processed_v1 [OF p m nn vm]
    obtain fv m' where j': "j' = j\<lparr>data := Some m'\<rparr>"
      and c: "if backfill_possible (flowRepo s) (repeat j) (property fv ''id'')
               then property m' ''schemaVersion'' = Some (JNum 4)
                    \<and> property m' ''executionType'' = None
                    \<and> property m' ''jobType'' = Some RepeatableJobType_EXECUTE_TRIGGER
               else property m' ''schemaVersion'' = Some (JNum 2)"
      by auto
    from v' j' have "property m' ''schemaVersion'' = Some (JNum 4)" by (simp add: data_field_def)
    with c have "property m' ''jobType'' = Some RepeatableJobType_EXECUTE_TRIGGER"
      by (auto split: if_splits)
    then have "data_field j' ''jobType'' = Some RepeatableJobType_EXECUTE_TRIGGER"
      by (simp add: j' data_field_def)
    then show ?thesis
      by (simp add: RepeatableJobType_EXECUTE_TRIGGER_def RepeatableJobType_DELAYED_FLOW_def)
  qed
  from a b c show ?thesis by blast
qed

text \<open>C10, counterexample: the payload of \<open>job_no_flowVersion\<close> has no schema version;
  the step raises \<open>TypeError\<close> and leaves the state as it was, and after the pass the
  job has neither \<open>executionType\<close> nor \<open>environment\<close>.\<close>

theorem C10_counterexample:
  "property (JObj []) ''schemaVersion'' = None
   \<and> migrate_v1_to_v2 0 \<lparr>job = job_no_flowVersion, modifiedJobData = JObj [], migratedJobs = 0\<rparr>
        (example_state [Some job_no_flowVersion])
      = (Inl TypeError, example_state [Some job_no_flowVersion])
   \<and> queue_field (example_state [Some job_no_flowVersion]) ''schemaVersion'' = [None]
   \<and> fst (init (example_state [Some job_no_flowVersion])) = Inl TypeError
   \<and> queue_field (snd (init (example_state [Some job_no_flowVersion]))) ''executionType'' = [None]
   \<and> queue_field (snd (init (example_state [Some job_no_flowVersion]))) ''environment'' = [None]"
  by (simp add: queue_field_def data_field_def example_defs enum_defs migration_defs)

text \<open>C10, witness: the step on the payload of \<open>job_v1\<close>, which says \<open>RESUME\<close>; the
  step on the empty payload; \<open>job_v1\<close> after a pass.\<close>

theorem C10_v1_jobs_begin_witness:
  "(\<exists>m'. migrate_v1_to_v2 1
        \<lparr>job = job_v1,
           modifiedJobData = JObj [(''flowVersion'', JObj [(''id'', JStr ''fv1''), (''flowId'', JStr ''f1'')]),
                         (''projectId'', JStr ''p1''),
                         (''triggerType'', JStr ''SCHEDULE''),
                         (''executionType'', JStr ''RESUME'')],
           migratedJobs = 0\<rparr>
        (example_state [Some job_v1_unpublished, Some job_v1])
      = (Inr \<lparr>job = job_v1\<lparr>data := Some m'\<rparr>, modifiedJobData = m', migratedJobs = 1\<rparr>,
         example_state [Some job_v1_unpublished, Some (job_v1\<lparr>data := Some m'\<rparr>)])
      \<and> property m' ''executionType'' = Some ExecutionType_BEGIN
      \<and> property m' ''environment'' = Some RunEnvironment_PRODUCTION)
   \<and> migrate_v1_to_v2 0 \<lparr>job = job_no_flowVersion, modifiedJobData = JObj [], migratedJobs = 0\<rparr>
        (example_state [Some job_no_flowVersion])
      = (Inl TypeError, example_state [Some job_no_flowVersion])
   \<and> (\<exists>j'. scheduledJobQueue (snd (init (example_state [Some job_v1_unpublished, Some job_v1]))) ! 1
             = Some j'
      \<and> data_field job_v1 ''executionType'' = Some ExecutionType_RESUME
      \<and> data_field j' ''schemaVersion'' = Some (JNum 4)
      \<and> data_field j' ''jobType'' = Some RepeatableJobType_EXECUTE_TRIGGER)"
proof -
  let ?m = "JObj [(''flowVersion'', JObj [(''id'', JStr ''fv1''), (''flowId'', JStr ''f1'')]),
                         (''projectId'', JStr ''p1''),
                         (''triggerType'', JStr ''SCHEDULE''),
                         (''executionType'', JStr ''RESUME'')]"
  let ?l = "\<lparr>job = job_v1, modifiedJobData = ?m, migratedJobs = 0\<rparr>"
  let ?s = "example_state [Some job_v1_unpublished, Some job_v1]"
  let ?lb = "\<lparr>job = job_no_flowVersion, modifiedJobData = JObj [], migratedJobs = 0\<rparr>"
  let ?sb = "example_state [Some job_no_flowVersion]"
  have h1: "(property (modifiedJobData ?l) ''schemaVersion'' = None
       \<or> property (modifiedJobData ?l) ''schemaVersion'' = Some (JNum 1))
      \<and> \<not> isNil (property (modifiedJobData ?l) ''flowVersion'')"
    by simp
  from C10_v1_jobs_begin [of ?l 1 ?s, THEN conjunct1, rule_format, OF h1]
  obtain m' where step: "migrate_v1_to_v2 1 ?l ?s =
            (Inr \<lparr>job = (job ?l)\<lparr>data := Some m'\<rparr>, modifiedJobData = m',
                  migratedJobs = migratedJobs ?l + 1\<rparr>,
             ?s\<lparr>scheduledJobQueue :=
                 (scheduledJobQueue ?s)[1 := Some ((job ?l)\<lparr>data := Some m'\<rparr>)]\<rparr>)"
    and p: "property m' ''executionType'' = Some ExecutionType_BEGIN"
      "property m' ''environment'' = Some RunEnvironment_PRODUCTION"
    by blast
  have st: "?s\<lparr>scheduledJobQueue :=
                 (scheduledJobQueue ?s)[1 := Some ((job ?l)\<lparr>data := Some m'\<rparr>)]\<rparr>
      = example_state [Some job_v1_unpublished, Some (job_v1\<lparr>data := Some m'\<rparr>)]"
    by (simp add: example_state_def)
  have part1: "\<exists>m'. migrate_v1_to_v2 1 ?l ?s
      = (Inr \<lparr>job = job_v1\<lparr>data := Some m'\<rparr>, modifiedJobData = m', migratedJobs = 1\<rparr>,
         example_state [Some job_v1_unpublished, Some (job_v1\<lparr>data := Some m'\<rparr>)])
      \<and> property m' ''executionType'' = Some ExecutionType_BEGIN
      \<and> property m' ''environment'' = Some RunEnvironment_PRODUCTION"
    using step p unfolding st by (intro exI [of _ m']) simp
  have h2: "(property (modifiedJobData ?lb) ''schemaVersion'' = None
       \<or> property (modifiedJobData ?lb) ''schemaVersion'' = Some (JNum 1))
      \<and> isNil (property (modifiedJobData ?lb) ''flowVersion'')"
    by simp
  have part2: "migrate_v1_to_v2 0 ?lb ?sb = (Inl TypeError, ?sb)"
    using C10_v1_jobs_begin [of ?lb 0 ?sb, THEN conjunct2, THEN conjunct1, rule_format, OF h2] .
  have "\<exists>j'. scheduledJobQueue (snd (init ?s)) ! 1 = Some j'
      \<and> data_field j' ''schemaVersion'' = Some (JNum 4)"
    by (simp add: data_field_def example_defs enum_defs migration_defs)
  then obtain j' where j': "scheduledJobQueue (snd (init ?s)) ! 1 = Some j'"
    "data_field j' ''schemaVersion'' = Some (JNum 4)" by blast
  have h3: "init ?s = (fst (init ?s), snd (init ?s)) \<and> 1 < length (scheduledJobQueue ?s)
      \<and> scheduledJobQueue ?s ! 1 = Some job_v1
      \<and> (data_field job_v1 ''schemaVersion'' = None
           \<or> data_field job_v1 ''schemaVersion'' = Some (JNum 1))
      \<and> scheduledJobQueue (snd (init ?s)) ! 1 = Some j'
      \<and> data_field j' ''schemaVersion'' = Some (JNum 4)"
    using j' by (simp add: example_state_def data_field_def job_v1_def)
  have part3: "data_field j' ''jobType'' = Some RepeatableJobType_EXECUTE_TRIGGER"
    using C10_v1_jobs_begin [of ?l 1 ?s "fst (init ?s)" "snd (init ?s)" 1 job_v1 j',
        THEN conjunct2, THEN conjunct2, rule_format, OF h3] by simp
  have orig: "data_field job_v1 ''executionType'' = Some ExecutionType_RESUME"
    by (simp add: data_field_def job_v1_def ExecutionType_RESUME_def)
  show ?thesis using part1 part2 j' part3 orig by blast
qed

end
